theory Spec2Isabelle
  imports Main "HOL-Library.Word"
begin

section \<open>The EV allocator of tensorflow/core/framework/ev\_allocator.cc\<close>

text \<open>
  The allocator is embedded as state-passing functions. Its member fields keep their
  names without the trailing underscore (\<open>stats_\<close> is \<open>stats\<close>), which is not
  allowed in a constant's name. The mutex \<open>mu_\<close> has no counterpart: the embedding is
  of sequential executions, one call at a time.
\<close>

subsection \<open>Machine types\<close>

type_synonym int64 = "64 word"
type_synonym size_t = "64 word"
type_synonym ptr = "64 word"
type_synonym cint = "32 word"

text \<open>The null pointer.\<close>

definition nullptr :: ptr where
  "nullptr = 0"

text \<open>
  \<open>std::max<int64>(a, b)\<close>: both arguments are read as signed 64-bit values, and the
  result is \<open>(a < b) ? b : a\<close>.
\<close>

definition max_int64 :: "int64 \<Rightarrow> int64 \<Rightarrow> int64" where
  "max_int64 a b = (if sint a < sint b then b else a)"

subsection \<open>Double precision arithmetic of the threshold computation\<close>

text \<open>
  A finite double is a pair \<open>(m, e)\<close> standing for \<open>m * 2 ^ e\<close>, with \<open>\<bar>m\<bar> \<le> 2 ^ 53\<close>.
  Only conversion from \<open>int64\<close>, multiplication by one of the two constants and
  truncation back to \<open>int64\<close> occur, so every value is zero or a normal number and
  every result is in the range of \<open>int64\<close>.
\<close>

type_synonym double = "int \<times> int"

function bit_length :: "int \<Rightarrow> int" where
  "bit_length n = (if n \<le> 0 then 0 else 1 + bit_length (n div 2))"
  by pat_completeness auto
termination
  by (relation "measure nat") auto

declare bit_length.simps [simp del]

text \<open>Rounding of the exact value \<open>m * 2 ^ e\<close> to 53 significant bits, ties to even.\<close>

definition round_to_double :: "int \<times> int \<Rightarrow> double" where
  "round_to_double x =
     (let m = fst x; e = snd x; a = \<bar>m\<bar>; b = bit_length a
      in if b \<le> 53 then (m, e)
         else
           let s = b - 53; q = a div 2 ^ nat s; r = a mod 2 ^ nat s; h = 2 ^ nat (s - 1);
               q' = (if h < r \<or> (r = h \<and> odd q) then q + 1 else q)
           in (sgn m * q', e + s))"

text \<open>\<open>static_cast<double>\<close> of an \<open>int64\<close> (the implicit conversion in \<open>int64 * double\<close>).\<close>

definition int64_to_double :: "int64 \<Rightarrow> double" where
  "int64_to_double v = round_to_double (sint v, 0)"

definition double_mul :: "double \<Rightarrow> double \<Rightarrow> double" where
  "double_mul x y = round_to_double (fst x * fst y, snd x + snd y)"

text \<open>\<open>static_cast<int64>\<close> of a double: the fraction is discarded (truncation to zero).\<close>

definition double_to_int64 :: "double \<Rightarrow> int64" where
  "double_to_int64 x =
     (let m = fst x; e = snd x
      in if 0 \<le> e then word_of_int (m * 2 ^ nat e)
         else word_of_int (sgn m * (\<bar>m\<bar> div 2 ^ nat (- e))))"

subsection \<open>Constants\<close>

definition kMaxTotalAllocationWarnings :: int where
  "kMaxTotalAllocationWarnings = 1"

definition kMaxSingleAllocationWarnings :: int where
  "kMaxSingleAllocationWarnings = 5"

text \<open>The double nearest to 0.5 is 0.5 itself.\<close>

definition kTotalAllocationWarningThreshold :: double where
  "kTotalAllocationWarningThreshold = (1, - 1)"

text \<open>The double nearest to 0.1 is \<open>0x3FB999999999999A\<close>, that is \<open>3602879701896397 / 2 ^ 55\<close>.\<close>

definition kLargeAllocationWarningThreshold :: double where
  "kLargeAllocationWarningThreshold = (3602879701896397, - 55)"

subsection \<open>The platform\<close>

text \<open>
  The functions of \<open>tensorflow/core/platform/mem.h\<close> that the allocator calls are not
  part of the file. They are parameters of the embedding, over a platform state \<open>'h\<close>
  (the heap and whatever else the operating system keeps): \<open>AvailableRam\<close> and
  \<open>MallocExtension_GetAllocatedSize\<close> read the state, \<open>AlignedMalloc\<close> and
  \<open>AlignedFree\<close> change it.
\<close>

record 'h port =
  AvailableRam :: "'h \<Rightarrow> int64"
  AlignedMalloc :: "size_t \<Rightarrow> size_t \<Rightarrow> 'h \<Rightarrow> ptr \<times> 'h"
  AlignedFree :: "ptr \<Rightarrow> 'h \<Rightarrow> 'h"
  MallocExtension_GetAllocatedSize :: "ptr \<Rightarrow> 'h \<Rightarrow> size_t"

subsection \<open>Process-wide state\<close>

text \<open>The two messages written with \<open>LOG(WARNING)\<close>, each with the number it prints.\<close>

datatype warning =
  SingleAllocationWarning size_t
| TotalAllocationWarning int64

text \<open>
  The state shared by every allocator of the process: the platform, the flag
  \<open>ev_allocator_collect_stats\<close>, the function-local statics of the two threshold
  accessors (\<open>None\<close> before their initialisation), and the log. \<open>ram_queries\<close> counts
  the calls of \<open>port::AvailableRam\<close>. The flag is a static variable with the initialiser
  \<open>false\<close> that no statement of the file assigns; it is a component of the state, so
  that what the allocator does under either value can be stated.
\<close>

record 'h process =
  platform :: 'h
  ev_allocator_collect_stats :: bool
  large_value :: "int64 option"
  total_value :: "int64 option"
  ram_queries :: nat
  warnings :: "warning list"

text \<open>
  At the start of the process the flag is \<open>false\<close> (its initialiser), no static is
  initialised and nothing is logged.
\<close>

definition process_start :: "'h \<Rightarrow> 'h process" where
  "process_start h =
     \<lparr>platform = h, ev_allocator_collect_stats = False, large_value = None,
      total_value = None, ram_queries = 0, warnings = []\<rparr>"

definition scaled_ram :: "'h port \<Rightarrow> double \<Rightarrow> 'h process \<Rightarrow> int64" where
  "scaled_ram port fraction w =
     double_to_int64 (double_mul (int64_to_double (AvailableRam port (platform w))) fraction)"

definition LargeAllocationWarningBytes :: "'h port \<Rightarrow> 'h process \<Rightarrow> int64 \<times> 'h process" where
  "LargeAllocationWarningBytes port w =
     (case large_value w of
        Some v \<Rightarrow> (v, w)
      | None \<Rightarrow>
          (let v = scaled_ram port kLargeAllocationWarningThreshold w
           in (v, w\<lparr>large_value := Some v, ram_queries := ram_queries w + 1\<rparr>)))"

definition TotalAllocationWarningBytes :: "'h port \<Rightarrow> 'h process \<Rightarrow> int64 \<times> 'h process" where
  "TotalAllocationWarningBytes port w =
     (case total_value w of
        Some v \<Rightarrow> (v, w)
      | None \<Rightarrow>
          (let v = scaled_ram port kTotalAllocationWarningThreshold w
           in (v, w\<lparr>total_value := Some v, ram_queries := ram_queries w + 1\<rparr>)))"

subsection \<open>The allocator\<close>

text \<open>
  Modelled from the spec: \<open>AllocatorStats\<close> is declared in
  \<open>tensorflow/core/framework/allocator.h\<close>, which is not part of the file. The four
  counters the allocator touches are 64-bit signed integers, all zero in a new object.
\<close>

record AllocatorStats =
  num_allocs :: int64
  bytes_in_use :: int64
  peak_bytes_in_use :: int64
  largest_alloc_size :: int64

definition AllocatorStats_new :: AllocatorStats where
  "AllocatorStats_new =
     \<lparr>num_allocs = 0, bytes_in_use = 0, peak_bytes_in_use = 0, largest_alloc_size = 0\<rparr>"

record EVAllocator =
  stats :: AllocatorStats
  single_allocation_warning_count :: cint
  total_allocation_warning_count :: cint

text \<open>The constructor \<open>EVAllocator()\<close>.\<close>

definition EVAllocator_new :: EVAllocator where
  "EVAllocator_new =
     \<lparr>stats = AllocatorStats_new, single_allocation_warning_count = 0,
      total_allocation_warning_count = 0\<rparr>"

definition Name :: "EVAllocator \<Rightarrow> string" where
  "Name a = ''ev_allocator''"

text \<open>
  \<open>AllocateRaw\<close> is embedded in three parts, in the order of its body. The pair of the
  process state and the allocator is the state that a call works on (\<open>'h state\<close> below).

  The first statement, the warning about one large allocation. In
  \<open>num_bytes > LargeAllocationWarningBytes()\<close> the left side is a \<open>size_t\<close>, so the
  comparison is unsigned. The accessor is the left operand of \<open>&&\<close>: it is called in
  every case.
\<close>

definition warn_large_allocation ::
  "'h port \<Rightarrow> size_t \<Rightarrow> 'h process \<times> EVAllocator \<Rightarrow> 'h process \<times> EVAllocator"
where
  "warn_large_allocation port num_bytes s =
     (let w = fst s; a = snd s;
          large = fst (LargeAllocationWarningBytes port w);
          w1 = snd (LargeAllocationWarningBytes port w)
      in if large < num_bytes
            \<and> sint (single_allocation_warning_count a) < kMaxSingleAllocationWarnings
         then (w1\<lparr>warnings := warnings w1 @ [SingleAllocationWarning num_bytes]\<rparr>,
               a\<lparr>single_allocation_warning_count := single_allocation_warning_count a + 1\<rparr>)
         else (w1, a))"

text \<open>
  The body of \<open>if (ev_allocator_collect_stats)\<close>, for the pointer \<open>p\<close> that
  \<open>AlignedMalloc\<close> returned. \<open>bytes_in_use += alloc_size\<close> adds modulo \<open>2 ^ 64\<close>;
  \<open>stats_.bytes_in_use > TotalAllocationWarningBytes()\<close> compares two signed values.
\<close>

definition collect_stats ::
  "'h port \<Rightarrow> ptr \<Rightarrow> 'h process \<times> EVAllocator \<Rightarrow> 'h process \<times> EVAllocator"
where
  "collect_stats port p s =
     (let w = fst s; a = snd s;
          alloc_size = MallocExtension_GetAllocatedSize port p (platform w);
          st = stats a;
          st1 = st\<lparr>num_allocs := num_allocs st + 1\<rparr>;
          st2 = st1\<lparr>bytes_in_use := bytes_in_use st1 + alloc_size\<rparr>;
          st3 = st2\<lparr>peak_bytes_in_use :=
                       max_int64 (peak_bytes_in_use st2) (bytes_in_use st2)\<rparr>;
          st4 = st3\<lparr>largest_alloc_size := max_int64 (largest_alloc_size st3) alloc_size\<rparr>;
          a1 = a\<lparr>stats := st4\<rparr>;
          total = fst (TotalAllocationWarningBytes port w);
          w1 = snd (TotalAllocationWarningBytes port w)
      in if sint total < sint (bytes_in_use st4)
            \<and> sint (total_allocation_warning_count a1) < kMaxTotalAllocationWarnings
         then (w1\<lparr>warnings := warnings w1 @ [TotalAllocationWarning (bytes_in_use st4)]\<rparr>,
               a1\<lparr>total_allocation_warning_count := total_allocation_warning_count a1 + 1\<rparr>)
         else (w1, a1))"

text \<open>The whole function: the warning, \<open>alignment = 8\<close>, the allocation, the statistics.\<close>

definition AllocateRaw ::
  "'h port \<Rightarrow> size_t \<Rightarrow> size_t \<Rightarrow> 'h process \<times> EVAllocator \<Rightarrow> ptr \<times> 'h process \<times> EVAllocator"
where
  "AllocateRaw port alignment num_bytes s =
     (let s1 = warn_large_allocation port num_bytes s;
          alignment = 8;
          p = fst (AlignedMalloc port num_bytes alignment (platform (fst s1)));
          s2 = ((fst s1)\<lparr>platform :=
                           snd (AlignedMalloc port num_bytes alignment (platform (fst s1)))\<rparr>,
                snd s1)
      in if ev_allocator_collect_stats (fst s2) then (p, collect_stats port p s2) else (p, s2))"

definition DeallocateRaw :: "'h port \<Rightarrow> ptr \<Rightarrow> 'h process \<times> EVAllocator \<Rightarrow> 'h process \<times> EVAllocator"
where
  "DeallocateRaw port p s =
     (let w = fst s; a = snd s;
          a1 = (if ev_allocator_collect_stats w then
                  let alloc_size = MallocExtension_GetAllocatedSize port p (platform w);
                      st = stats a
                  in a\<lparr>stats := st\<lparr>bytes_in_use := bytes_in_use st - alloc_size\<rparr>\<rparr>
                else a)
      in (w\<lparr>platform := AlignedFree port p (platform w)\<rparr>, a1))"

definition GetStats :: "EVAllocator \<Rightarrow> AllocatorStats option" where
  "GetStats a = Some (stats a)"

definition ClearStats :: "EVAllocator \<Rightarrow> EVAllocator" where
  "ClearStats a =
     (let st = stats a;
          st1 = st\<lparr>num_allocs := 0\<rparr>;
          st2 = st1\<lparr>peak_bytes_in_use := bytes_in_use st1\<rparr>;
          st3 = st2\<lparr>largest_alloc_size := 0\<rparr>
      in a\<lparr>stats := st3\<rparr>)"

definition AllocatedSizeSlow :: "'h port \<Rightarrow> ptr \<Rightarrow> 'h process \<Rightarrow> size_t" where
  "AllocatedSizeSlow port p w = MallocExtension_GetAllocatedSize port p (platform w)"

subsection \<open>Sequences of calls on one allocator\<close>

type_synonym 'h state = "'h process \<times> EVAllocator"

datatype op =
  OpAllocateRaw size_t size_t
| OpDeallocateRaw ptr
| OpGetStats
| OpClearStats

text \<open>
  The state after one call. \<open>GetStats\<close> returns a copy and changes nothing. The returned
  pointer of \<open>AllocateRaw\<close> is dropped here; it is \<open>fst (AllocateRaw port alignment num_bytes s)\<close>.
\<close>

definition exec :: "'h port \<Rightarrow> op \<Rightarrow> 'h state \<Rightarrow> 'h state" where
  "exec port x s =
     (case x of
        OpAllocateRaw alignment num_bytes \<Rightarrow> snd (AllocateRaw port alignment num_bytes s)
      | OpDeallocateRaw p \<Rightarrow> DeallocateRaw port p s
      | OpGetStats \<Rightarrow> s
      | OpClearStats \<Rightarrow> (fst s, ClearStats (snd s)))"

fun run :: "'h port \<Rightarrow> op list \<Rightarrow> 'h state \<Rightarrow> 'h state" where
  "run port [] s = s"
| "run port (x # xs) s = run port xs (exec port x s)"

text \<open>The number of warnings of each kind in a log.\<close>

fun is_single :: "warning \<Rightarrow> bool" where
  "is_single (SingleAllocationWarning n) = True"
| "is_single (TotalAllocationWarning n) = False"

fun is_total :: "warning \<Rightarrow> bool" where
  "is_total (SingleAllocationWarning n) = False"
| "is_total (TotalAllocationWarning n) = True"

definition single_warnings :: "'h state \<Rightarrow> nat" where
  "single_warnings s = length (filter is_single (warnings (fst s)))"

definition total_warnings :: "'h state \<Rightarrow> nat" where
  "total_warnings s = length (filter is_total (warnings (fst s)))"

subsection \<open>Live blocks\<close>

text \<open>
  The blocks handed out and not yet freed: a call of \<open>AllocateRaw\<close> that returns a
  pointer other than null adds it, \<open>DeallocateRaw\<close> removes one occurrence of its argument.
\<close>

definition live_step :: "'h port \<Rightarrow> op \<Rightarrow> 'h state \<Rightarrow> ptr list \<Rightarrow> ptr list" where
  "live_step port x s live =
     (case x of
        OpAllocateRaw alignment num_bytes \<Rightarrow>
          (let p = fst (AllocateRaw port alignment num_bytes s)
           in if p = nullptr then live else p # live)
      | OpDeallocateRaw p \<Rightarrow> remove1 p live
      | OpGetStats \<Rightarrow> live
      | OpClearStats \<Rightarrow> live)"

fun live_blocks :: "'h port \<Rightarrow> op list \<Rightarrow> 'h state \<Rightarrow> ptr list \<Rightarrow> ptr list" where
  "live_blocks port [] s live = live"
| "live_blocks port (x # xs) s live = live_blocks port xs (exec port x s) (live_step port x s live)"

text \<open>
  Every pointer passed to \<open>DeallocateRaw\<close> is a live block at that moment, or null
  (what a failed allocation returned; freeing it is allowed).
\<close>

definition paired_step :: "op \<Rightarrow> ptr list \<Rightarrow> bool" where
  "paired_step x live =
     (case x of
        OpAllocateRaw alignment num_bytes \<Rightarrow> True
      | OpDeallocateRaw p \<Rightarrow> p \<in> set live \<or> p = nullptr
      | OpGetStats \<Rightarrow> True
      | OpClearStats \<Rightarrow> True)"

fun correctly_paired :: "'h port \<Rightarrow> op list \<Rightarrow> 'h state \<Rightarrow> ptr list \<Rightarrow> bool" where
  "correctly_paired port [] s live = True"
| "correctly_paired port (x # xs) s live =
     (paired_step x live
      \<and> correctly_paired port xs (exec port x s) (live_step port x s live))"

text \<open>
  What the allocator relies on from the platform, at one call: \<open>AlignedMalloc\<close> returns
  null or a block that is not live, the size reported for null (returned or freed) is 0,
  and neither \<open>AlignedMalloc\<close> nor \<open>AlignedFree\<close> changes the size reported for the
  other live blocks.
\<close>

definition platform_step :: "'h port \<Rightarrow> op \<Rightarrow> 'h state \<Rightarrow> ptr list \<Rightarrow> bool" where
  "platform_step port x s live =
     (let h = platform (fst s)
      in case x of
           OpAllocateRaw alignment num_bytes \<Rightarrow>
             (let p = fst (AlignedMalloc port num_bytes 8 h);
                  h' = snd (AlignedMalloc port num_bytes 8 h)
              in (p = nullptr \<longrightarrow> MallocExtension_GetAllocatedSize port p h' = 0)
                 \<and> (p \<noteq> nullptr \<longrightarrow> p \<notin> set live)
                 \<and> (\<forall>q \<in> set live. MallocExtension_GetAllocatedSize port q h'
                                     = MallocExtension_GetAllocatedSize port q h))
         | OpDeallocateRaw p \<Rightarrow>
             (p = nullptr \<longrightarrow> MallocExtension_GetAllocatedSize port p h = 0)
             \<and> (\<forall>q \<in> set (remove1 p live).
                    MallocExtension_GetAllocatedSize port q (AlignedFree port p h)
                    = MallocExtension_GetAllocatedSize port q h)
         | OpGetStats \<Rightarrow> True
         | OpClearStats \<Rightarrow> True)"

fun platform_sound :: "'h port \<Rightarrow> op list \<Rightarrow> 'h state \<Rightarrow> ptr list \<Rightarrow> bool" where
  "platform_sound port [] s live = True"
| "platform_sound port (x # xs) s live =
     (platform_step port x s live
      \<and> platform_sound port xs (exec port x s) (live_step port x s live))"

text \<open>The sizes the platform reports for a list of blocks, and their sum as a number.\<close>

definition reported_sizes :: "'h port \<Rightarrow> 'h state \<Rightarrow> ptr list \<Rightarrow> size_t list" where
  "reported_sizes port s live =
     map (\<lambda>q. MallocExtension_GetAllocatedSize port q (platform (fst s))) live"

definition live_bytes :: "'h port \<Rightarrow> 'h state \<Rightarrow> ptr list \<Rightarrow> nat" where
  "live_bytes port s live = sum_list (map unat (reported_sizes port s live))"

subsection \<open>The invariant of the statistics\<close>

definition stats_inv :: "EVAllocator \<Rightarrow> bool" where
  "stats_inv a = (sint (bytes_in_use (stats a)) \<le> sint (peak_bytes_in_use (stats a)))"

text \<open>
  The subtraction \<open>bytes_in_use -= alloc_size\<close> of \<open>DeallocateRaw\<close> stays in the range of
  \<open>int64\<close>: the difference of the two numbers is at least \<open>- 2 ^ 63\<close>.
\<close>

definition in_int64_range :: "'h port \<Rightarrow> op \<Rightarrow> 'h state \<Rightarrow> bool" where
  "in_int64_range port x s =
     (case x of
        OpAllocateRaw alignment num_bytes \<Rightarrow> True
      | OpDeallocateRaw p \<Rightarrow>
          - (2 ^ 63) \<le> sint (bytes_in_use (stats (snd s)))
                        - uint (MallocExtension_GetAllocatedSize port p (platform (fst s)))
      | OpGetStats \<Rightarrow> True
      | OpClearStats \<Rightarrow> True)"

subsection \<open>Requests above the thresholds\<close>

text \<open>
  A call of \<open>AllocateRaw\<close> whose \<open>num_bytes\<close> is above what \<open>LargeAllocationWarningBytes()\<close>
  returns in that call, compared as the code compares them.
\<close>

definition is_large :: "'h port \<Rightarrow> op \<Rightarrow> 'h state \<Rightarrow> bool" where
  "is_large port x s =
     (case x of
        OpAllocateRaw alignment num_bytes \<Rightarrow>
          fst (LargeAllocationWarningBytes port (fst s)) < num_bytes
      | OpDeallocateRaw p \<Rightarrow> False
      | OpGetStats \<Rightarrow> False
      | OpClearStats \<Rightarrow> False)"

fun large_requests :: "'h port \<Rightarrow> op list \<Rightarrow> 'h state \<Rightarrow> nat" where
  "large_requests port [] s = 0"
| "large_requests port (x # xs) s =
     (if is_large port x s then 1 else 0) + large_requests port xs (exec port x s)"

text \<open>
  \<open>bytes_in_use\<close> is above the cumulative threshold. After a call of \<open>AllocateRaw\<close> with
  statistics enabled, \<open>total_value\<close> holds what \<open>TotalAllocationWarningBytes()\<close> returned
  in that call.
\<close>

definition usage_exceeds :: "'h state \<Rightarrow> bool" where
  "usage_exceeds s =
     (case total_value (fst s) of
        None \<Rightarrow> False
      | Some v \<Rightarrow> sint v < sint (bytes_in_use (stats (snd s))))"

definition crosses :: "'h port \<Rightarrow> op \<Rightarrow> 'h state \<Rightarrow> bool" where
  "crosses port x s =
     (case x of
        OpAllocateRaw alignment num_bytes \<Rightarrow> usage_exceeds (exec port x s)
      | OpDeallocateRaw p \<Rightarrow> False
      | OpGetStats \<Rightarrow> False
      | OpClearStats \<Rightarrow> False)"

fun crossings :: "'h port \<Rightarrow> op list \<Rightarrow> 'h state \<Rightarrow> nat" where
  "crossings port [] s = 0"
| "crossings port (x # xs) s =
     (if crosses port x s then 1 else 0) + crossings port xs (exec port x s)"

subsection \<open>The factory and the sub-allocator\<close>

text \<open>
  Objects made with \<open>new\<close> live in two tables, one for each class; a pointer to an object
  is its index. A call through a pointer that refers to no object has no result.
\<close>

record EVSubAllocator =
  ev_allocator :: nat

record 'h program =
  proc :: "'h process"
  ev_allocators :: "EVAllocator list"
  sub_allocators :: "EVSubAllocator list"

definition new_EVAllocator :: "'h program \<Rightarrow> nat \<times> 'h program" where
  "new_EVAllocator m =
     (length (ev_allocators m), m\<lparr>ev_allocators := ev_allocators m @ [EVAllocator_new]\<rparr>)"

definition new_EVSubAllocator :: "nat \<Rightarrow> 'h program \<Rightarrow> nat \<times> 'h program" where
  "new_EVSubAllocator a m =
     (length (sub_allocators m),
      m\<lparr>sub_allocators := sub_allocators m @ [\<lparr>ev_allocator = a\<rparr>]\<rparr>)"

definition CreateEVAllocator :: "'h program \<Rightarrow> nat \<times> 'h program" where
  "CreateEVAllocator m = new_EVAllocator m"

definition CreateAllocator :: "'h program \<Rightarrow> nat \<times> 'h program" where
  "CreateAllocator m = CreateEVAllocator m"

definition CreateSubAllocator :: "cint \<Rightarrow> 'h program \<Rightarrow> nat \<times> 'h program" where
  "CreateSubAllocator numa_node m =
     (let a = fst (new_EVAllocator m); m1 = snd (new_EVAllocator m)
      in new_EVSubAllocator a m1)"

text \<open>\<open>a->AllocateRaw(alignment, num_bytes)\<close> and \<open>a->DeallocateRaw(p)\<close> for a pointer \<open>a\<close>.\<close>

definition call_AllocateRaw ::
  "'h port \<Rightarrow> nat \<Rightarrow> size_t \<Rightarrow> size_t \<Rightarrow> 'h program \<Rightarrow> (ptr \<times> 'h program) option"
where
  "call_AllocateRaw port a alignment num_bytes m =
     (if a < length (ev_allocators m) then
        let r = AllocateRaw port alignment num_bytes (proc m, ev_allocators m ! a)
        in Some (fst r, m\<lparr>proc := fst (snd r),
                           ev_allocators := (ev_allocators m)[a := snd (snd r)]\<rparr>)
      else None)"

definition call_DeallocateRaw :: "'h port \<Rightarrow> nat \<Rightarrow> ptr \<Rightarrow> 'h program \<Rightarrow> 'h program option" where
  "call_DeallocateRaw port a p m =
     (if a < length (ev_allocators m) then
        let r = DeallocateRaw port p (proc m, ev_allocators m ! a)
        in Some (m\<lparr>proc := fst r, ev_allocators := (ev_allocators m)[a := snd r]\<rparr>)
      else None)"

text \<open>The two methods of \<open>EVSubAllocator\<close>, called through a pointer \<open>sub\<close>.\<close>

definition Alloc ::
  "'h port \<Rightarrow> nat \<Rightarrow> size_t \<Rightarrow> size_t \<Rightarrow> 'h program \<Rightarrow> (ptr \<times> 'h program) option"
where
  "Alloc port sub alignment num_bytes m =
     (if sub < length (sub_allocators m) then
        call_AllocateRaw port (ev_allocator (sub_allocators m ! sub)) alignment num_bytes m
      else None)"

definition Free :: "'h port \<Rightarrow> nat \<Rightarrow> ptr \<Rightarrow> size_t \<Rightarrow> 'h program \<Rightarrow> 'h program option" where
  "Free port sub p num_bytes m =
     (if sub < length (sub_allocators m) then
        call_DeallocateRaw port (ev_allocator (sub_allocators m ! sub)) p m
      else None)"

subsection \<open>A platform to run the allocator on\<close>

text \<open>
  A small platform for concrete runs: blocks are carved from a growing break, sizes are
  rounded up to a multiple of 16, a request above the free memory fails with null, and
  the available memory is what has not been handed out.
\<close>

record sample_heap =
  free_ram :: int64
  brk :: ptr
  blocks :: "(ptr \<times> size_t) list"

definition usable_size :: "size_t \<Rightarrow> size_t" where
  "usable_size n = (if n = 0 then 16 else ((n + 15) div 16) * 16)"

definition sample_port :: "sample_heap port" where
  "sample_port =
     \<lparr>AvailableRam = free_ram,
      AlignedMalloc = (\<lambda>n alignment h.
         if free_ram h < usable_size n then (nullptr, h)
         else (brk h, h\<lparr>free_ram := free_ram h - usable_size n, brk := brk h + usable_size n,
                          blocks := (brk h, usable_size n) # blocks h\<rparr>)),
      AlignedFree = (\<lambda>p h.
         case map_of (blocks h) p of
           None \<Rightarrow> h
         | Some n \<Rightarrow> h\<lparr>free_ram := free_ram h + n,
                        blocks := filter (\<lambda>b. fst b \<noteq> p) (blocks h)\<rparr>),
      MallocExtension_GetAllocatedSize = (\<lambda>p h.
         case map_of (blocks h) p of None \<Rightarrow> 0 | Some n \<Rightarrow> n)\<rparr>"

definition sample_heap_start :: sample_heap where
  "sample_heap_start = \<lparr>free_ram = 10000, brk = 4096, blocks = []\<rparr>"

text \<open>A process on the sample platform in which statistics are collected.\<close>

definition sample_process :: "sample_heap process" where
  "sample_process = (process_start sample_heap_start)\<lparr>ev_allocator_collect_stats := True\<rparr>"

definition sample_program :: "sample_heap program" where
  "sample_program = \<lparr>proc = sample_process, ev_allocators = [], sub_allocators = []\<rparr>"

text \<open>The state after two allocations on a new allocator.\<close>

definition sample_state :: "sample_heap state" where
  "sample_state =
     run sample_port [OpAllocateRaw 16 1200, OpAllocateRaw 16 300]
       (sample_process, EVAllocator_new)"

text \<open>
  A later moment of a process on the sample platform: the per-allocation threshold has
  been computed, and the platform has since come down to 70 available bytes.
\<close>

definition sample_later :: "sample_heap process" where
  "sample_later =
     (snd (LargeAllocationWarningBytes sample_port (process_start sample_heap_start)))
       \<lparr>platform := \<lparr>free_ram = 70, brk = 4096, blocks = []\<rparr>\<rparr>"

text \<open>Seven requests of 1200 bytes, and a run with frees and a failing request.\<close>

definition seven_requests :: "op list" where
  "seven_requests = replicate 7 (OpAllocateRaw 64 1200)"

definition mixed_requests :: "op list" where
  "mixed_requests =
     [OpAllocateRaw 16 1200, OpAllocateRaw 16 300, OpDeallocateRaw 4096,
      OpAllocateRaw 8 12000, OpDeallocateRaw nullptr, OpClearStats, OpAllocateRaw 1 50,
      OpGetStats]"

text \<open>Three requests of 1200 bytes, and what follows the fourth in a longer run.\<close>

definition three_requests :: "op list" where
  "three_requests = replicate 3 (OpAllocateRaw 64 1200)"

definition later_requests :: "op list" where
  "later_requests = [OpAllocateRaw 64 1200, OpDeallocateRaw 4096, OpAllocateRaw 64 1200]"

text \<open>Two sub-allocators, made for the nodes 3 and 7.\<close>

definition sample_two :: "sample_heap program" where
  "sample_two = snd (CreateSubAllocator 7 (snd (CreateSubAllocator 3 sample_program)))"

text \<open>
  The sample platform with room for the whole address space, and two requests of
  \<open>2 ^ 63\<close> and \<open>2 ^ 63 - 16\<close> bytes on it.
\<close>

definition roomy_port :: "sample_heap port" where
  "roomy_port = sample_port\<lparr>AvailableRam := (\<lambda>h. 0x4000000000000000)\<rparr>"

definition roomy_process :: "sample_heap process" where
  "roomy_process =
     (process_start \<lparr>free_ram = 0xFFFFFFFFFFFFFFFF, brk = 4096, blocks = []\<rparr>)
       \<lparr>ev_allocator_collect_stats := True\<rparr>"

definition huge_requests :: "op list" where
  "huge_requests = [OpAllocateRaw 8 0x8000000000000000, OpAllocateRaw 8 0x7FFFFFFFFFFFFFF0]"

definition huge_state :: "sample_heap state" where
  "huge_state = run roomy_port huge_requests (roomy_process, EVAllocator_new)"

text \<open>The two sub-allocators after an allocation of 1200 bytes through the first.\<close>

definition sample_busy :: "sample_heap program" where
  "sample_busy =
     (case Alloc sample_port 0 64 1200 sample_two of
        None \<Rightarrow> sample_two
      | Some r \<Rightarrow> snd r)"

section \<open>Properties\<close>

subsection \<open>What the threshold accessors leave alone\<close>

lemma LargeAllocationWarningBytes_frame [simp]:
  "platform (snd (LargeAllocationWarningBytes port w)) = platform w"
  "ev_allocator_collect_stats (snd (LargeAllocationWarningBytes port w))
     = ev_allocator_collect_stats w"
  "total_value (snd (LargeAllocationWarningBytes port w)) = total_value w"
  "warnings (snd (LargeAllocationWarningBytes port w)) = warnings w"
  by (simp_all add: LargeAllocationWarningBytes_def Let_def split: option.split)

lemma TotalAllocationWarningBytes_frame [simp]:
  "platform (snd (TotalAllocationWarningBytes port w)) = platform w"
  "ev_allocator_collect_stats (snd (TotalAllocationWarningBytes port w))
     = ev_allocator_collect_stats w"
  "large_value (snd (TotalAllocationWarningBytes port w)) = large_value w"
  "warnings (snd (TotalAllocationWarningBytes port w)) = warnings w"
  by (simp_all add: TotalAllocationWarningBytes_def Let_def split: option.split)

lemma LargeAllocationWarningBytes_cached [simp]:
  "large_value (snd (LargeAllocationWarningBytes port w))
     = Some (fst (LargeAllocationWarningBytes port w))"
  by (simp add: LargeAllocationWarningBytes_def Let_def split: option.split)

lemma TotalAllocationWarningBytes_cached [simp]:
  "total_value (snd (TotalAllocationWarningBytes port w))
     = Some (fst (TotalAllocationWarningBytes port w))"
  by (simp add: TotalAllocationWarningBytes_def Let_def split: option.split)

subsection \<open>The two blocks of AllocateRaw\<close>

lemma warn_large_allocation_frame [simp]:
  "platform (fst (warn_large_allocation port num_bytes s)) = platform (fst s)"
  "ev_allocator_collect_stats (fst (warn_large_allocation port num_bytes s))
     = ev_allocator_collect_stats (fst s)"
  "total_value (fst (warn_large_allocation port num_bytes s)) = total_value (fst s)"
  "stats (snd (warn_large_allocation port num_bytes s)) = stats (snd s)"
  "total_allocation_warning_count (snd (warn_large_allocation port num_bytes s))
     = total_allocation_warning_count (snd s)"
  by (simp_all add: warn_large_allocation_def Let_def)

lemma warn_large_allocation_large_value [simp]:
  "large_value (fst (warn_large_allocation port num_bytes s))
     = Some (fst (LargeAllocationWarningBytes port (fst s)))"
  by (simp add: warn_large_allocation_def Let_def)

lemma warn_large_allocation_count:
  "single_allocation_warning_count (snd (warn_large_allocation port num_bytes s)) =
     (if fst (LargeAllocationWarningBytes port (fst s)) < num_bytes
         \<and> sint (single_allocation_warning_count (snd s)) < 5
      then single_allocation_warning_count (snd s) + 1
      else single_allocation_warning_count (snd s))"
  by (simp add: warn_large_allocation_def Let_def kMaxSingleAllocationWarnings_def)

lemma warn_large_allocation_warnings:
  "warnings (fst (warn_large_allocation port num_bytes s)) =
     warnings (fst s) @
     (if fst (LargeAllocationWarningBytes port (fst s)) < num_bytes
         \<and> sint (single_allocation_warning_count (snd s)) < 5
      then [SingleAllocationWarning num_bytes] else [])"
  by (simp add: warn_large_allocation_def Let_def kMaxSingleAllocationWarnings_def)

lemma collect_stats_frame [simp]:
  "platform (fst (collect_stats port p s)) = platform (fst s)"
  "ev_allocator_collect_stats (fst (collect_stats port p s)) = ev_allocator_collect_stats (fst s)"
  "large_value (fst (collect_stats port p s)) = large_value (fst s)"
  "single_allocation_warning_count (snd (collect_stats port p s))
     = single_allocation_warning_count (snd s)"
  by (simp_all add: collect_stats_def Let_def)

lemma collect_stats_total_value [simp]:
  "total_value (fst (collect_stats port p s))
     = Some (fst (TotalAllocationWarningBytes port (fst s)))"
  by (simp add: collect_stats_def Let_def)

lemma collect_stats_stats:
  "num_allocs (stats (snd (collect_stats port p s))) = num_allocs (stats (snd s)) + 1"
  "bytes_in_use (stats (snd (collect_stats port p s)))
     = bytes_in_use (stats (snd s)) + MallocExtension_GetAllocatedSize port p (platform (fst s))"
  "peak_bytes_in_use (stats (snd (collect_stats port p s)))
     = max_int64 (peak_bytes_in_use (stats (snd s)))
         (bytes_in_use (stats (snd s)) + MallocExtension_GetAllocatedSize port p (platform (fst s)))"
  "largest_alloc_size (stats (snd (collect_stats port p s)))
     = max_int64 (largest_alloc_size (stats (snd s)))
         (MallocExtension_GetAllocatedSize port p (platform (fst s)))"
  by (simp_all add: collect_stats_def Let_def)

lemma collect_stats_count:
  "total_allocation_warning_count (snd (collect_stats port p s)) =
     (if sint (fst (TotalAllocationWarningBytes port (fst s)))
           < sint (bytes_in_use (stats (snd (collect_stats port p s))))
         \<and> sint (total_allocation_warning_count (snd s)) < 1
      then total_allocation_warning_count (snd s) + 1
      else total_allocation_warning_count (snd s))"
  by (simp add: collect_stats_def Let_def kMaxTotalAllocationWarnings_def)

lemma collect_stats_warnings:
  "warnings (fst (collect_stats port p s)) =
     warnings (fst s) @
     (if sint (fst (TotalAllocationWarningBytes port (fst s)))
           < sint (bytes_in_use (stats (snd (collect_stats port p s))))
         \<and> sint (total_allocation_warning_count (snd s)) < 1
      then [TotalAllocationWarning (bytes_in_use (stats (snd (collect_stats port p s))))]
      else [])"
  by (simp add: collect_stats_def Let_def kMaxTotalAllocationWarnings_def)

subsection \<open>AllocateRaw, component by component\<close>

lemma AllocateRaw_pointer:
  "fst (AllocateRaw port alignment num_bytes s) =
     fst (AlignedMalloc port num_bytes 8 (platform (fst s)))"
  by (simp add: AllocateRaw_def Let_def)

lemma AllocateRaw_platform:
  "platform (fst (snd (AllocateRaw port alignment num_bytes s))) =
     snd (AlignedMalloc port num_bytes 8 (platform (fst s)))"
  by (simp add: AllocateRaw_def Let_def)

lemma AllocateRaw_flag:
  "ev_allocator_collect_stats (fst (snd (AllocateRaw port alignment num_bytes s))) =
     ev_allocator_collect_stats (fst s)"
  by (simp add: AllocateRaw_def Let_def)

lemma AllocateRaw_alignment:
  "AllocateRaw port a1 num_bytes s = AllocateRaw port a2 num_bytes s"
  by (simp add: AllocateRaw_def)

lemma AllocateRaw_num_allocs:
  "ev_allocator_collect_stats (fst s) \<Longrightarrow>
   num_allocs (stats (snd (snd (AllocateRaw port alignment num_bytes s)))) =
     num_allocs (stats (snd s)) + 1"
  by (simp add: AllocateRaw_def Let_def collect_stats_stats)

lemma AllocateRaw_bytes_in_use:
  "ev_allocator_collect_stats (fst s) \<Longrightarrow>
   bytes_in_use (stats (snd (snd (AllocateRaw port alignment num_bytes s)))) =
     bytes_in_use (stats (snd s)) +
     MallocExtension_GetAllocatedSize port
       (fst (AlignedMalloc port num_bytes 8 (platform (fst s))))
       (snd (AlignedMalloc port num_bytes 8 (platform (fst s))))"
  by (simp add: AllocateRaw_def Let_def collect_stats_stats)

lemma AllocateRaw_stats_disabled:
  "\<not> ev_allocator_collect_stats (fst s) \<Longrightarrow>
   stats (snd (snd (AllocateRaw port alignment num_bytes s))) = stats (snd s)"
  by (simp add: AllocateRaw_def Let_def)

subsection \<open>The alignment argument\<close>

text \<open>
  C6. From the same state, \<open>AllocateRaw\<close> with two alignments and the same \<open>num_bytes\<close>
  gives the same pointer and the same state (statistics, counters and log alike): the
  aligned-allocation primitive is called with alignment 8, whatever was requested.
\<close>

theorem AllocateRaw_ignores_alignment:
  "AllocateRaw port a1 num_bytes s = AllocateRaw port a2 num_bytes s
   \<and> fst (AllocateRaw port a1 num_bytes s)
       = fst (AlignedMalloc port num_bytes 8 (platform (fst s)))
   \<and> platform (fst (snd (AllocateRaw port a1 num_bytes s)))
       = snd (AlignedMalloc port num_bytes 8 (platform (fst s)))"
  using AllocateRaw_alignment [of port a1 num_bytes s a2]
  by (simp add: AllocateRaw_pointer AllocateRaw_platform)

subsection \<open>The returned pointer\<close>

text \<open>
  C9. \<open>AllocateRaw\<close> returns the pointer of the single call of \<open>AlignedMalloc\<close> it makes,
  null included, and the platform is left as that one call left it (no second attempt);
  this holds in every state, so whether a warning is logged has no effect on it.
\<close>

theorem AllocateRaw_returns_primitive_pointer:
  "fst (AllocateRaw port alignment num_bytes s)
     = fst (AlignedMalloc port num_bytes 8 (platform (fst s)))
   \<and> platform (fst (snd (AllocateRaw port alignment num_bytes s)))
       = snd (AlignedMalloc port num_bytes 8 (platform (fst s)))
   \<and> (fst (AlignedMalloc port num_bytes 8 (platform (fst s))) = nullptr
        \<longrightarrow> fst (AllocateRaw port alignment num_bytes s) = nullptr)"
  by (simp add: AllocateRaw_pointer AllocateRaw_platform)

text \<open>
  On the sample platform a request of 12000 bytes fails: the primitive returns null, so
  does \<open>AllocateRaw\<close>, and the warning about the size is logged all the same. A request
  of 1200 bytes returns the block of the primitive.
\<close>

theorem AllocateRaw_returns_primitive_pointer_witness:
  "fst (AlignedMalloc sample_port 12000 8 (platform sample_process)) = nullptr
   \<and> fst (AllocateRaw sample_port 64 12000 (sample_process, EVAllocator_new)) = nullptr
   \<and> warnings (fst (snd (AllocateRaw sample_port 64 12000 (sample_process, EVAllocator_new))))
       = [SingleAllocationWarning 12000]
   \<and> fst (AllocateRaw sample_port 64 1200 (sample_process, EVAllocator_new)) = 4096
   \<and> fst (AlignedMalloc sample_port 1200 8 (platform sample_process)) = 4096"
proof -
  have h: "fst (AlignedMalloc sample_port 12000 8 (platform sample_process)) = nullptr"
    by code_simp
  have w: "warnings (fst (snd (AllocateRaw sample_port 64 12000 (sample_process, EVAllocator_new))))
       = [SingleAllocationWarning 12000]"
    by code_simp
  have k: "fst (AlignedMalloc sample_port 1200 8 (platform sample_process)) = 4096"
    by code_simp
  show ?thesis
    using AllocateRaw_returns_primitive_pointer
            [of sample_port 64 12000 "(sample_process, EVAllocator_new)"]
          AllocateRaw_returns_primitive_pointer
            [of sample_port 64 1200 "(sample_process, EVAllocator_new)"]
          h w k
    by simp
qed

subsection \<open>Failed allocations are counted\<close>

text \<open>
  C10. With statistics enabled, every call of \<open>AllocateRaw\<close> adds one to \<open>num_allocs\<close>
  (in 64-bit arithmetic), also when the returned pointer is null: the statistics are not
  left as they were when the allocation fails.
\<close>

theorem AllocateRaw_counts_failed_allocations:
  "ev_allocator_collect_stats (fst s) \<Longrightarrow>
   num_allocs (stats (snd (snd (AllocateRaw port alignment num_bytes s))))
     = num_allocs (stats (snd s)) + 1
   \<and> (fst (AllocateRaw port alignment num_bytes s) = nullptr \<longrightarrow>
        stats (snd (snd (AllocateRaw port alignment num_bytes s))) \<noteq> stats (snd s))"
proof -
  assume en: "ev_allocator_collect_stats (fst s)"
  have n: "num_allocs (stats (snd (snd (AllocateRaw port alignment num_bytes s))))
     = num_allocs (stats (snd s)) + 1"
    using en by (rule AllocateRaw_num_allocs)
  have "num_allocs (stats (snd s)) + 1 \<noteq> num_allocs (stats (snd s))"
    by simp
  with n have "stats (snd (snd (AllocateRaw port alignment num_bytes s))) \<noteq> stats (snd s)"
    by metis
  with n show ?thesis by simp
qed

theorem AllocateRaw_counts_failed_allocations_witness:
  "ev_allocator_collect_stats (fst (sample_process, EVAllocator_new))
   \<and> fst (AllocateRaw sample_port 8 12000 (sample_process, EVAllocator_new)) = nullptr
   \<and> num_allocs (stats (snd (snd
         (AllocateRaw sample_port 8 12000 (sample_process, EVAllocator_new))))) = 1"
proof -
  have en: "ev_allocator_collect_stats (fst (sample_process, EVAllocator_new))"
    by code_simp
  have p: "fst (AllocateRaw sample_port 8 12000 (sample_process, EVAllocator_new)) = nullptr"
    by code_simp
  have z: "num_allocs (stats (snd (sample_process, EVAllocator_new))) = 0"
    by code_simp
  show ?thesis
    using AllocateRaw_counts_failed_allocations [OF en, of sample_port 8 12000] en p z
    by simp
qed

subsection \<open>ClearStats\<close>

text \<open>
  C5. \<open>ClearStats\<close> sets \<open>num_allocs\<close> and \<open>largest_alloc_size\<close> to 0 and
  \<open>peak_bytes_in_use\<close> to the \<open>bytes_in_use\<close> of the moment; \<open>bytes_in_use\<close> and the two
  warning counters keep their values, and the process state is not touched. \<open>GetStats\<close>
  right after returns exactly these four numbers and changes nothing.
\<close>

theorem ClearStats_effect:
  "num_allocs (stats (ClearStats a)) = 0
   \<and> peak_bytes_in_use (stats (ClearStats a)) = bytes_in_use (stats a)
   \<and> largest_alloc_size (stats (ClearStats a)) = 0
   \<and> bytes_in_use (stats (ClearStats a)) = bytes_in_use (stats a)
   \<and> single_allocation_warning_count (ClearStats a) = single_allocation_warning_count a
   \<and> total_allocation_warning_count (ClearStats a) = total_allocation_warning_count a
   \<and> GetStats (ClearStats a)
       = Some \<lparr>num_allocs = 0, bytes_in_use = bytes_in_use (stats a),
               peak_bytes_in_use = bytes_in_use (stats a), largest_alloc_size = 0\<rparr>
   \<and> exec port OpClearStats (w, a) = (w, ClearStats a)
   \<and> exec port OpGetStats (w, ClearStats a) = (w, ClearStats a)"
  by (simp add: ClearStats_def GetStats_def exec_def Let_def)

subsection \<open>The peak is never below the bytes in use\<close>

text \<open>
  A subtraction of an unsigned from a signed 64-bit number whose exact result is at least
  \<open>- 2 ^ 63\<close> gives that result.
\<close>

lemma sint_minus_unsigned:
  fixes a b :: "64 word"
  assumes lo: "- (2 ^ 63) \<le> sint a - uint b"
  shows "sint (a - b) = sint a - uint b"
proof -
  have "a - b = word_of_int (sint a - uint b)"
    by simp
  then have "sint (a - b) = signed_take_bit 63 (sint a - uint b)"
    by (simp only: sint_sbintrunc') simp
  moreover have "sint a - uint b < 2 ^ 63"
  proof -
    have "sint a < 2 ^ 63" using sint_lt [of a] by simp
    moreover have "0 \<le> uint b" by simp
    ultimately show ?thesis by linarith
  qed
  ultimately show ?thesis
    using lo by (simp add: signed_take_bit_int_eq_self)
qed

lemma stats_inv_new: "stats_inv EVAllocator_new"
  by (simp add: stats_inv_def EVAllocator_new_def AllocatorStats_new_def)

lemma stats_inv_AllocateRaw:
  "stats_inv (snd s) \<Longrightarrow> stats_inv (snd (snd (AllocateRaw port alignment num_bytes s)))"
  by (simp add: AllocateRaw_def Let_def stats_inv_def collect_stats_stats max_int64_def)

lemma stats_inv_DeallocateRaw:
  assumes "stats_inv (snd s)" and "in_int64_range port (OpDeallocateRaw p) s"
  shows "stats_inv (snd (DeallocateRaw port p s))"
proof (cases "ev_allocator_collect_stats (fst s)")
  case False
  with assms(1) show ?thesis by (simp add: DeallocateRaw_def Let_def stats_inv_def)
next
  case True
  let ?n = "MallocExtension_GetAllocatedSize port p (platform (fst s))"
  have "sint (bytes_in_use (stats (snd s)) - ?n) = sint (bytes_in_use (stats (snd s))) - uint ?n"
    using assms(2) by (intro sint_minus_unsigned) (simp add: in_int64_range_def)
  then have "sint (bytes_in_use (stats (snd s)) - ?n) \<le> sint (bytes_in_use (stats (snd s)))"
    by simp
  with assms(1) True show ?thesis
    by (simp add: DeallocateRaw_def Let_def stats_inv_def)
qed

lemma stats_inv_ClearStats: "stats_inv (ClearStats a)"
  by (simp add: ClearStats_def Let_def stats_inv_def)

lemma stats_inv_exec:
  assumes "stats_inv (snd s)" and "in_int64_range port x s"
  shows "stats_inv (snd (exec port x s))"
proof (cases x)
  case (OpAllocateRaw alignment num_bytes)
  with assms(1) show ?thesis by (simp add: exec_def stats_inv_AllocateRaw)
next
  case (OpDeallocateRaw p)
  with assms show ?thesis by (simp add: exec_def stats_inv_DeallocateRaw)
next
  case OpGetStats
  with assms(1) show ?thesis by (simp add: exec_def)
next
  case OpClearStats
  then show ?thesis by (simp add: exec_def stats_inv_ClearStats)
qed

text \<open>
  C2, as amended. \<open>peak_bytes_in_use \<ge> bytes_in_use\<close>, both read as signed 64-bit
  numbers, holds in a new allocator and after \<open>ClearStats\<close>, and each of \<open>AllocateRaw\<close>,
  \<open>GetStats\<close> and \<open>ClearStats\<close> keeps it, with statistics enabled or not.
  \<open>DeallocateRaw\<close> keeps it whenever its subtraction stays in the range of \<open>int64\<close>
  (\<open>in_int64_range\<close>, which is true of the three other calls). Without that condition
  \<open>DeallocateRaw\<close> does not keep it, as the run after the next theorem shows.
\<close>

theorem peak_bounds_bytes_in_use:
  "stats_inv EVAllocator_new
   \<and> stats_inv (ClearStats a)
   \<and> (stats_inv (snd s) \<longrightarrow>
        stats_inv (snd (snd (AllocateRaw port alignment num_bytes s)))
        \<and> GetStats (snd s) = Some (stats (snd s))
        \<and> stats_inv (snd (exec port OpGetStats s))
        \<and> stats_inv (snd (exec port OpClearStats s)))
   \<and> (stats_inv (snd s) \<and> in_int64_range port x s \<longrightarrow> stats_inv (snd (exec port x s)))"
  using stats_inv_new stats_inv_ClearStats [of a]
    stats_inv_AllocateRaw [of s port alignment num_bytes]
    stats_inv_exec [of s port x]
    stats_inv_exec [of s port OpGetStats] stats_inv_exec [of s port OpClearStats]
  by (simp add: GetStats_def in_int64_range_def)

text \<open>
  After two allocations of 1200 and 300 bytes on the sample platform, freeing the first
  block leaves 304 bytes in use under a peak of 1504.
\<close>

theorem peak_bounds_bytes_in_use_witness:
  "stats_inv (snd sample_state)
   \<and> in_int64_range sample_port (OpDeallocateRaw 4096) sample_state
   \<and> stats_inv (snd (exec sample_port (OpDeallocateRaw 4096) sample_state))
   \<and> bytes_in_use (stats (snd (exec sample_port (OpDeallocateRaw 4096) sample_state))) = 304
   \<and> peak_bytes_in_use (stats (snd (exec sample_port (OpDeallocateRaw 4096) sample_state)))
       = 1504"
proof -
  have i: "stats_inv (snd sample_state)" by code_simp
  have r: "in_int64_range sample_port (OpDeallocateRaw 4096) sample_state" by code_simp
  have b: "bytes_in_use (stats (snd (exec sample_port (OpDeallocateRaw 4096) sample_state)))
             = 304"
    by code_simp
  have p: "peak_bytes_in_use (stats (snd (exec sample_port (OpDeallocateRaw 4096) sample_state)))
             = 1504"
    by code_simp
  show ?thesis
    using peak_bounds_bytes_in_use
            [of EVAllocator_new sample_state sample_port 16 8 "OpDeallocateRaw 4096"] i r b p
    by simp
qed

text \<open>
  C2 as it was stated fails. On the roomy platform, after the requests of \<open>2 ^ 63\<close> and
  \<open>2 ^ 63 - 16\<close> bytes, \<open>bytes_in_use\<close> reads \<open>- 16\<close> under a peak of 0. Freeing the
  first block, which is live, subtracts \<open>2 ^ 63\<close>: the result wraps to \<open>2 ^ 63 - 16\<close>,
  \<open>DeallocateRaw\<close> does not touch the peak, and the peak is below the bytes in use.
\<close>

theorem peak_bounds_bytes_in_use_counterexample:
  "ev_allocator_collect_stats (fst huge_state)
   \<and> paired_step (OpDeallocateRaw 4096)
         (live_blocks roomy_port huge_requests (roomy_process, EVAllocator_new) [])
   \<and> sint (bytes_in_use (stats (snd huge_state))) = - 16
   \<and> sint (peak_bytes_in_use (stats (snd huge_state))) = 0
   \<and> stats_inv (snd huge_state)
   \<and> sint (bytes_in_use (stats (snd (exec roomy_port (OpDeallocateRaw 4096) huge_state))))
       = 9223372036854775792
   \<and> sint (peak_bytes_in_use (stats (snd (exec roomy_port (OpDeallocateRaw 4096) huge_state))))
       = 0
   \<and> \<not> stats_inv (snd (exec roomy_port (OpDeallocateRaw 4096) huge_state))"
proof -
  let ?t = "exec roomy_port (OpDeallocateRaw 4096) huge_state"
  have a: "ev_allocator_collect_stats (fst huge_state)" by code_simp
  have b: "paired_step (OpDeallocateRaw 4096)
         (live_blocks roomy_port huge_requests (roomy_process, EVAllocator_new) [])"
    by code_simp
  have c: "bytes_in_use (stats (snd huge_state)) = 0xFFFFFFFFFFFFFFF0" by code_simp
  have d: "peak_bytes_in_use (stats (snd huge_state)) = 0" by code_simp
  have e: "bytes_in_use (stats (snd ?t)) = 0x7FFFFFFFFFFFFFF0" by code_simp
  have f: "peak_bytes_in_use (stats (snd ?t)) = 0" by code_simp
  show ?thesis
    using a b by (simp add: stats_inv_def c d e f)
qed

subsection \<open>More components of AllocateRaw and DeallocateRaw\<close>

lemma AllocateRaw_single_count:
  "single_allocation_warning_count (snd (snd (AllocateRaw port alignment num_bytes s))) =
     (if fst (LargeAllocationWarningBytes port (fst s)) < num_bytes
         \<and> sint (single_allocation_warning_count (snd s)) < 5
      then single_allocation_warning_count (snd s) + 1
      else single_allocation_warning_count (snd s))"
  by (simp add: AllocateRaw_def Let_def warn_large_allocation_count)

lemma AllocateRaw_single_warnings:
  "single_warnings (snd (AllocateRaw port alignment num_bytes s)) =
     (if fst (LargeAllocationWarningBytes port (fst s)) < num_bytes
         \<and> sint (single_allocation_warning_count (snd s)) < 5
      then single_warnings s + 1
      else single_warnings s)"
  by (simp add: AllocateRaw_def Let_def single_warnings_def warn_large_allocation_warnings
        collect_stats_warnings)

lemma AllocateRaw_total_count:
  "ev_allocator_collect_stats (fst s) \<Longrightarrow>
   total_allocation_warning_count (snd (snd (AllocateRaw port alignment num_bytes s))) =
     (if usage_exceeds (snd (AllocateRaw port alignment num_bytes s))
         \<and> sint (total_allocation_warning_count (snd s)) < 1
      then total_allocation_warning_count (snd s) + 1
      else total_allocation_warning_count (snd s))"
  by (simp add: AllocateRaw_def Let_def usage_exceeds_def collect_stats_count)

lemma AllocateRaw_total_warnings:
  "ev_allocator_collect_stats (fst s) \<Longrightarrow>
   total_warnings (snd (AllocateRaw port alignment num_bytes s)) =
     (if usage_exceeds (snd (AllocateRaw port alignment num_bytes s))
         \<and> sint (total_allocation_warning_count (snd s)) < 1
      then total_warnings s + 1
      else total_warnings s)"
  by (simp add: AllocateRaw_def Let_def usage_exceeds_def total_warnings_def
        warn_large_allocation_warnings collect_stats_warnings)

lemma AllocateRaw_large_value:
  "large_value (fst (snd (AllocateRaw port alignment num_bytes s)))
     = Some (fst (LargeAllocationWarningBytes port (fst s)))"
  by (simp add: AllocateRaw_def Let_def)

lemma AllocateRaw_total_value:
  "total_value (fst s) = Some v \<Longrightarrow>
   total_value (fst (snd (AllocateRaw port alignment num_bytes s))) = Some v"
  by (simp add: AllocateRaw_def Let_def TotalAllocationWarningBytes_def)

lemma AllocateRaw_ram_queries:
  "large_value (fst s) = Some u \<Longrightarrow> total_value (fst s) = Some v \<Longrightarrow>
   ram_queries (fst (snd (AllocateRaw port alignment num_bytes s))) = ram_queries (fst s)"
  by (simp add: AllocateRaw_def Let_def warn_large_allocation_def collect_stats_def
        LargeAllocationWarningBytes_def TotalAllocationWarningBytes_def)

lemma DeallocateRaw_process:
  "fst (DeallocateRaw port p s) = (fst s)\<lparr>platform := AlignedFree port p (platform (fst s))\<rparr>"
  by (simp add: DeallocateRaw_def Let_def)

lemma DeallocateRaw_counts:
  "single_allocation_warning_count (snd (DeallocateRaw port p s))
     = single_allocation_warning_count (snd s)"
  "total_allocation_warning_count (snd (DeallocateRaw port p s))
     = total_allocation_warning_count (snd s)"
  by (simp_all add: DeallocateRaw_def Let_def)

lemma exec_flag:
  "ev_allocator_collect_stats (fst (exec port x s)) = ev_allocator_collect_stats (fst s)"
  by (cases x) (simp_all add: exec_def AllocateRaw_flag DeallocateRaw_process)

lemma run_flag:
  "ev_allocator_collect_stats (fst (run port xs s)) = ev_allocator_collect_stats (fst s)"
  by (induction xs arbitrary: s) (simp_all add: exec_flag)

lemma run_append: "run port (xs @ ys) s = run port ys (run port xs s)"
  by (induction xs arbitrary: s) simp_all

subsection \<open>The two double-precision products\<close>

text \<open>
  \<open>kLargeAllocationWarningThreshold\<close> is the double nearest to one tenth: with 53 bits
  its mantissa is twice the number below, at exponent \<open>- 56\<close>, and ten times that is
  \<open>2 ^ 56 + 4\<close>, less than half a unit in the last place away.
\<close>

lemma kLargeAllocationWarningThreshold_nearest:
  "10 * (2 * fst kLargeAllocationWarningThreshold) = 2 ^ 56 + 4"
  "2 ^ 52 \<le> 2 * fst kLargeAllocationWarningThreshold"
  "2 * fst kLargeAllocationWarningThreshold < 2 ^ 53"
  "snd kLargeAllocationWarningThreshold = - 55"
  by (simp_all add: kLargeAllocationWarningThreshold_def)

lemma bit_length_le:
  "n < 2 ^ k \<Longrightarrow> bit_length n \<le> int k"
proof (induction k arbitrary: n)
  case 0
  then show ?case by (simp add: bit_length.simps [of n])
next
  case (Suc k)
  show ?case
  proof (cases "n \<le> 0")
    case True
    then show ?thesis by (simp add: bit_length.simps [of n])
  next
    case False
    have "n div 2 < 2 ^ k" using Suc.prems by simp
    then have "bit_length (n div 2) \<le> int k" by (rule Suc.IH)
    with False show ?thesis by (simp add: bit_length.simps [of n])
  qed
qed

lemma round_to_double_small:
  assumes "\<bar>m\<bar> < 2 ^ 53"
  shows "round_to_double (m, e) = (m, e)"
  using bit_length_le [OF assms] by (simp add: round_to_double_def Let_def)

text \<open>Below \<open>2 ^ 53\<close> the product with 0.5 is exact, and truncation halves.\<close>

lemma total_threshold_value:
  assumes "0 \<le> sint ram" and "sint ram < 2 ^ 53"
  shows "double_to_int64 (double_mul (int64_to_double ram) kTotalAllocationWarningThreshold)
           = word_of_int (sint ram div 2)"
proof -
  have a: "\<bar>sint ram\<bar> < 2 ^ 53" using assms by simp
  have "int64_to_double ram = (sint ram, 0)"
    using a by (simp add: int64_to_double_def round_to_double_small)
  then have "double_mul (int64_to_double ram) kTotalAllocationWarningThreshold = (sint ram, - 1)"
    using a by (simp add: double_mul_def kTotalAllocationWarningThreshold_def round_to_double_small)
  then show ?thesis
    using assms(1) by (cases "sint ram = 0") (simp_all add: double_to_int64_def Let_def)
qed

text \<open>
  The product of \<open>r\<close> with the mantissa of 0.1: its quotient by \<open>2 ^ 55\<close> is \<open>r div 10\<close>,
  and its remainder stays clear of \<open>2 ^ 55\<close>.
\<close>

lemma tenth_div_mod:
  fixes r :: int
  assumes "0 \<le> r" and "r < 2 ^ 52"
  shows "(r * 3602879701896397) div 2 ^ 55 = r div 10"
    and "10 * ((r * 3602879701896397) mod 2 ^ 55) \<le> 9 * 2 ^ 55 + 2 ^ 53"
proof -
  let ?P = "r * 3602879701896397"
  let ?M = "(2::int) ^ 55"
  define k where "k = r div 10"
  define j where "j = r mod 10"
  define R where "R = ?P - k * ?M"
  have r: "r = 10 * k + j" and j: "0 \<le> j" "j \<le> 9"
    by (simp_all add: k_def j_def)
  have ten: "10 * R = j * ?M + 2 * r"
    unfolding R_def using r by simp
  have R0: "0 \<le> R" using ten j assms(1) by simp
  have R1: "R < ?M" using ten j assms(2) by simp
  have P: "?P = ?M * k + R" by (simp add: R_def)
  have d: "?P div ?M = k"
    using P R0 R1 by (simp add: div_pos_pos_trivial)
  have m: "?P mod ?M = R"
    using P R0 R1 by (simp add: mod_pos_pos_trivial)
  show "?P div 2 ^ 55 = r div 10" using d by (simp add: k_def)
  show "10 * (?P mod 2 ^ 55) \<le> 9 * 2 ^ 55 + 2 ^ 53"
    using m ten j assms(2) by simp
qed

text \<open>
  Rounding \<open>P\<close> to a multiple of \<open>2 ^ s\<close> (ties to even) does not reach the next
  multiple of \<open>2 ^ 55\<close>, so the integer part of \<open>P / 2 ^ 55\<close> survives it.
\<close>

lemma round_keeps_quotient:
  fixes P k :: int and s :: nat
  assumes s: "1 \<le> s" "s \<le> 51"
    and d: "P div 2 ^ 55 = k"
    and m: "10 * (P mod 2 ^ 55) \<le> 9 * 2 ^ 55 + 2 ^ 53"
  defines "q \<equiv> P div 2 ^ s"
  defines "q' \<equiv> (if 2 ^ (s - 1) < P mod 2 ^ s \<or> (P mod 2 ^ s = 2 ^ (s - 1) \<and> odd q)
                  then q + 1 else q)"
  shows "q' div 2 ^ (55 - s) = k"
proof -
  let ?A = "(2::int) ^ s"
  let ?B = "(2::int) ^ (55 - s)"
  let ?h = "(2::int) ^ (s - 1)"
  have AB: "?A * ?B = 2 ^ 55"
    using s by (simp flip: power_add)
  have hA: "2 * ?h = ?A"
    using s by (cases s) simp_all
  have h50: "?h \<le> 2 ^ 50"
    using s by (intro power_increasing) simp_all
  have qk: "q div ?B = k"
    using d AB by (simp add: q_def flip: zdiv_zmult2_eq)
  have pm: "P mod 2 ^ 55 = ?A * (q mod ?B) + P mod ?A"
    using zmod_zmult2_eq [of ?B P ?A] AB by (simp add: q_def)
  show ?thesis
  proof (cases "q' = q")
    case True
    with qk show ?thesis by simp
  next
    case False
    then have up: "q' = q + 1" and rem: "?h \<le> P mod ?A"
      by (auto simp add: q'_def split: if_splits)
    have lt: "q mod ?B + 1 < ?B"
    proof (rule ccontr)
      assume "\<not> q mod ?B + 1 < ?B"
      then have "?B - 1 \<le> q mod ?B" by simp
      then have "?A * (?B - 1) \<le> ?A * (q mod ?B)"
        by (intro mult_left_mono) simp_all
      then have "?A * ?B - ?A + ?h \<le> P mod 2 ^ 55"
        using pm rem by (simp add: algebra_simps)
      then have "2 ^ 55 - ?h \<le> P mod 2 ^ 55"
        using AB hA by simp
      then have "2 ^ 55 - 2 ^ 50 \<le> P mod 2 ^ 55"
        using h50 by linarith
      with m show False by simp
    qed
    have "q + 1 = ?B * (q div ?B) + (q mod ?B + 1)" by simp
    moreover have "0 \<le> q mod ?B + 1" by (simp add: add_nonneg_nonneg)
    ultimately have "(q + 1) div ?B = q div ?B"
      using lt by (intro int_div_pos_eq)
    with up qk show ?thesis by simp
  qed
qed

lemma sgn_times_div:
  fixes a b :: int
  assumes "0 \<le> a"
  shows "sgn a * (\<bar>a\<bar> div b) = a div b"
  using assms by (cases "a = 0") simp_all

lemma double_to_int64_fraction:
  assumes "e < 0" and "0 \<le> m"
  shows "double_to_int64 (m, e) = word_of_int (m div 2 ^ nat (- e))"
proof -
  have "double_to_int64 (m, e) = word_of_int (sgn m * (\<bar>m\<bar> div 2 ^ nat (- e)))"
    using assms(1) by (simp add: double_to_int64_def Let_def)
  then show ?thesis
    by (simp only: sgn_times_div [OF assms(2)])
qed

text \<open>Below \<open>2 ^ 52\<close> the truncated product with 0.1 is the integer tenth.\<close>

lemma large_threshold_value:
  assumes "0 \<le> sint ram" and "sint ram < 2 ^ 52"
  shows "double_to_int64 (double_mul (int64_to_double ram) kLargeAllocationWarningThreshold)
           = word_of_int (sint ram div 10)"
proof -
  let ?r = "sint ram"
  let ?P = "?r * 3602879701896397"
  have a: "\<bar>?r\<bar> < 2 ^ 53" using assms by simp
  have conv: "int64_to_double ram = (?r, 0)"
    using a by (simp add: int64_to_double_def round_to_double_small)
  have mul: "double_mul (int64_to_double ram) kLargeAllocationWarningThreshold
               = round_to_double (?P, - 55)"
    by (simp add: conv double_mul_def kLargeAllocationWarningThreshold_def)
  have P0: "0 \<le> ?P" using assms(1) by simp
  have d: "?P div 2 ^ 55 = ?r div 10"
    and m: "10 * (?P mod 2 ^ 55) \<le> 9 * 2 ^ 55 + 2 ^ 53"
    using tenth_div_mod [OF assms] by simp_all
  have "?P < 2 ^ 52 * 3602879701896397"
    using assms(2) by simp
  then have "?P < 2 ^ 104" by simp
  then have b104: "bit_length ?P \<le> 104"
    using bit_length_le [of ?P 104] by simp
  show ?thesis
  proof (cases "bit_length ?P \<le> 53")
    case True
    then have "round_to_double (?P, - 55) = (?P, - 55)"
      using P0 by (simp add: round_to_double_def Let_def)
    then show ?thesis
      using mul d by (simp add: double_to_int64_fraction [OF _ P0])
  next
    case False
    define s where "s = nat (bit_length ?P - 53)"
    have s: "1 \<le> s" "s \<le> 51" "int s = bit_length ?P - 53"
      using False b104 by (simp_all add: s_def)
    have s1: "nat (bit_length ?P - 54) = s - 1"
      using False by (simp add: s_def)
    define q' where "q' = (if 2 ^ (s - 1) < ?P mod 2 ^ s
          \<or> (?P mod 2 ^ s = 2 ^ (s - 1) \<and> odd (?P div 2 ^ s))
        then ?P div 2 ^ s + 1 else ?P div 2 ^ s)"
    have q: "q' div 2 ^ (55 - s) = ?r div 10"
      unfolding q'_def using round_keeps_quotient [OF s(1,2) d m] by simp
    have q0: "0 \<le> q'"
      using P0 by (simp add: q'_def pos_imp_zdiv_nonneg_iff)
    have Pne: "?P \<noteq> 0"
      using False by (auto simp add: bit_length.simps [of 0])
    then have sg: "sgn ?P = 1" using P0 by simp
    have rd: "round_to_double (?P, - 55) = (q', int s - 55)"
      using False P0 sg s(3)
      by (simp add: round_to_double_def Let_def q'_def s1 s_def [symmetric])
    have e: "nat (55 - int s) = 55 - s" by simp
    have "double_to_int64 (q', int s - 55) = word_of_int (q' div 2 ^ nat (- (int s - 55)))"
      using s(2) by (intro double_to_int64_fraction q0) simp
    then show ?thesis
      using s(2) q by (simp add: mul rd e)
  qed
qed

subsection \<open>The thresholds are computed once\<close>

lemma LargeAllocationWarningBytes_first:
  "large_value w = None \<Longrightarrow>
   LargeAllocationWarningBytes port w =
     (scaled_ram port kLargeAllocationWarningThreshold w,
      w\<lparr>large_value := Some (scaled_ram port kLargeAllocationWarningThreshold w),
        ram_queries := ram_queries w + 1\<rparr>)"
  by (simp add: LargeAllocationWarningBytes_def Let_def)

lemma LargeAllocationWarningBytes_later:
  "large_value w = Some v \<Longrightarrow> LargeAllocationWarningBytes port w = (v, w)"
  by (simp add: LargeAllocationWarningBytes_def)

lemma TotalAllocationWarningBytes_first:
  "total_value w = None \<Longrightarrow>
   TotalAllocationWarningBytes port w =
     (scaled_ram port kTotalAllocationWarningThreshold w,
      w\<lparr>total_value := Some (scaled_ram port kTotalAllocationWarningThreshold w),
        ram_queries := ram_queries w + 1\<rparr>)"
  by (simp add: TotalAllocationWarningBytes_def Let_def)

lemma TotalAllocationWarningBytes_later:
  "total_value w = Some v \<Longrightarrow> TotalAllocationWarningBytes port w = (v, w)"
  by (simp add: TotalAllocationWarningBytes_def)

lemma exec_large_value:
  assumes "large_value (fst s) = Some v"
  shows "large_value (fst (exec port x s)) = Some v"
proof (cases x)
  case (OpAllocateRaw alignment num_bytes)
  with assms show ?thesis
    by (simp add: exec_def AllocateRaw_large_value LargeAllocationWarningBytes_later)
qed (use assms in \<open>simp_all add: exec_def DeallocateRaw_process\<close>)

lemma exec_total_value:
  assumes "total_value (fst s) = Some v"
  shows "total_value (fst (exec port x s)) = Some v"
proof (cases x)
  case (OpAllocateRaw alignment num_bytes)
  with assms show ?thesis
    by (simp add: exec_def AllocateRaw_total_value)
qed (use assms in \<open>simp_all add: exec_def DeallocateRaw_process\<close>)

lemma exec_ram_queries:
  assumes "large_value (fst s) = Some u" and "total_value (fst s) = Some v"
  shows "ram_queries (fst (exec port x s)) = ram_queries (fst s)"
proof (cases x)
  case (OpAllocateRaw alignment num_bytes)
  with assms show ?thesis
    by (simp add: exec_def AllocateRaw_ram_queries)
qed (use assms in \<open>simp_all add: exec_def DeallocateRaw_process\<close>)

text \<open>
  C7. Each accessor, called while its static is not initialised, asks \<open>AvailableRam\<close>
  once and returns the answer multiplied in double precision by its fraction (0.1 for the
  per-allocation threshold, 0.5 for the cumulative one) and truncated to \<open>int64\<close>; the
  value is kept. For an answer from 0 to below \<open>2 ^ 52\<close> the per-allocation value is the
  integer tenth of the answer, and below \<open>2 ^ 53\<close> the cumulative value is its integer
  half. Called when the static holds a value, an accessor returns that value and changes
  nothing, so it does not ask again, whatever the platform has become. No call on an
  allocator changes a static that holds a value, and once both hold one no call on an
  allocator asks \<open>AvailableRam\<close>.
\<close>

theorem thresholds_computed_once:
  "(large_value w = None \<longrightarrow>
      fst (LargeAllocationWarningBytes port w)
        = double_to_int64 (double_mul (int64_to_double (AvailableRam port (platform w)))
            kLargeAllocationWarningThreshold)
      \<and> ram_queries (snd (LargeAllocationWarningBytes port w)) = ram_queries w + 1
      \<and> large_value (snd (LargeAllocationWarningBytes port w))
          = Some (fst (LargeAllocationWarningBytes port w))
      \<and> (0 \<le> sint (AvailableRam port (platform w))
           \<and> sint (AvailableRam port (platform w)) < 2 ^ 52 \<longrightarrow>
           fst (LargeAllocationWarningBytes port w)
             = word_of_int (sint (AvailableRam port (platform w)) div 10)))
   \<and> (large_value w = Some v \<longrightarrow> LargeAllocationWarningBytes port w = (v, w))
   \<and> (total_value w = None \<longrightarrow>
      fst (TotalAllocationWarningBytes port w)
        = double_to_int64 (double_mul (int64_to_double (AvailableRam port (platform w)))
            kTotalAllocationWarningThreshold)
      \<and> ram_queries (snd (TotalAllocationWarningBytes port w)) = ram_queries w + 1
      \<and> total_value (snd (TotalAllocationWarningBytes port w))
          = Some (fst (TotalAllocationWarningBytes port w))
      \<and> (0 \<le> sint (AvailableRam port (platform w))
           \<and> sint (AvailableRam port (platform w)) < 2 ^ 53 \<longrightarrow>
           fst (TotalAllocationWarningBytes port w)
             = word_of_int (sint (AvailableRam port (platform w)) div 2)))
   \<and> (total_value w = Some v \<longrightarrow> TotalAllocationWarningBytes port w = (v, w))
   \<and> (large_value (fst s) = Some v \<longrightarrow> large_value (fst (exec port x s)) = Some v)
   \<and> (total_value (fst s) = Some v \<longrightarrow> total_value (fst (exec port x s)) = Some v)
   \<and> (large_value (fst s) = Some u \<and> total_value (fst s) = Some v \<longrightarrow>
        ram_queries (fst (exec port x s)) = ram_queries (fst s))"
proof -
  let ?ram = "AvailableRam port (platform w)"
  have large: "fst (LargeAllocationWarningBytes port w) = word_of_int (sint ?ram div 10)"
    if "large_value w = None" and "0 \<le> sint ?ram" and "sint ?ram < 2 ^ 52"
    using large_threshold_value [OF that(2,3)] that(1)
    by (simp add: LargeAllocationWarningBytes_first scaled_ram_def)
  have total: "fst (TotalAllocationWarningBytes port w) = word_of_int (sint ?ram div 2)"
    if "total_value w = None" and "0 \<le> sint ?ram" and "sint ?ram < 2 ^ 53"
    using total_threshold_value [OF that(2,3)] that(1)
    by (simp add: TotalAllocationWarningBytes_first scaled_ram_def)
  show ?thesis
    using exec_large_value [of s v port x] exec_total_value [of s v port x]
      exec_ram_queries [of s u v port x] large total
    by (simp add: LargeAllocationWarningBytes_first LargeAllocationWarningBytes_later
          TotalAllocationWarningBytes_first TotalAllocationWarningBytes_later scaled_ram_def)
qed

text \<open>
  On the sample platform the first call of the per-allocation accessor sees 10000
  available bytes and returns 1000. Later, with 70 bytes available, it still returns
  1000 without asking, and the first call of the cumulative accessor returns 35.
\<close>

theorem thresholds_computed_once_witness:
  "large_value (process_start sample_heap_start) = None
   \<and> AvailableRam sample_port (platform (process_start sample_heap_start)) = 10000
   \<and> fst (LargeAllocationWarningBytes sample_port (process_start sample_heap_start)) = 1000
   \<and> ram_queries (snd (LargeAllocationWarningBytes sample_port
         (process_start sample_heap_start))) = 1
   \<and> AvailableRam sample_port (platform sample_later) = 70
   \<and> large_value sample_later = Some 1000
   \<and> LargeAllocationWarningBytes sample_port sample_later = (1000, sample_later)
   \<and> total_value sample_later = None
   \<and> fst (TotalAllocationWarningBytes sample_port sample_later) = 35
   \<and> ram_queries (snd (TotalAllocationWarningBytes sample_port sample_later)) = 2"
proof -
  let ?w = "process_start sample_heap_start"
  have a: "large_value ?w = None" by code_simp
  have b: "AvailableRam sample_port (platform ?w) = 10000" by code_simp
  have c: "double_to_int64 (double_mul (int64_to_double 10000)
             kLargeAllocationWarningThreshold) = 1000"
    by code_simp
  have d: "ram_queries ?w = 0" by code_simp
  have e: "AvailableRam sample_port (platform sample_later) = 70" by code_simp
  have f: "large_value sample_later = Some 1000" by code_simp
  have g: "total_value sample_later = None" by code_simp
  have h: "double_to_int64 (double_mul (int64_to_double 70)
             kTotalAllocationWarningThreshold) = 35"
    by code_simp
  have i: "ram_queries sample_later = 1" by code_simp
  show ?thesis
    using thresholds_computed_once
            [of ?w sample_port 1000 "(?w, EVAllocator_new)" OpGetStats 0]
          thresholds_computed_once
            [of sample_later sample_port 1000 "(?w, EVAllocator_new)" OpGetStats 0]
          a b c d e f g h i
    by simp
qed

subsection \<open>Warnings about single allocations\<close>

lemma exec_single_count:
  "single_allocation_warning_count (snd (exec port x s)) =
     (if is_large port x s \<and> sint (single_allocation_warning_count (snd s)) < 5
      then single_allocation_warning_count (snd s) + 1
      else single_allocation_warning_count (snd s))"
  by (cases x)
     (simp_all add: exec_def is_large_def AllocateRaw_single_count DeallocateRaw_counts
        ClearStats_def Let_def)

lemma exec_single_warnings:
  "single_warnings (exec port x s) =
     (if is_large port x s \<and> sint (single_allocation_warning_count (snd s)) < 5
      then single_warnings s + 1
      else single_warnings s)"
proof (cases x)
  case (OpAllocateRaw alignment num_bytes)
  then show ?thesis
    by (simp add: exec_def is_large_def AllocateRaw_single_warnings)
qed (simp_all add: exec_def is_large_def DeallocateRaw_process single_warnings_def)

lemma small_count_sint:
  fixes k :: nat
  assumes "k \<le> 5"
  shows "sint (of_nat k :: cint) = int k"
proof -
  have "k \<in> {0, 1, 2, 3, 4, 5}" using assms by auto
  then show ?thesis by auto
qed

text \<open>
  From a counter \<open>k \<le> 5\<close>, a sequence of calls leaves the counter at the smaller of 5 and
  \<open>k\<close> plus the number of large requests, and logs as many warnings as the counter grew.
\<close>

lemma run_single:
  assumes "single_allocation_warning_count (snd s) = of_nat k" and "k \<le> 5"
  shows "single_allocation_warning_count (snd (run port xs s))
           = of_nat (min 5 (k + large_requests port xs s))
         \<and> single_warnings (run port xs s) + k
             = single_warnings s + min 5 (k + large_requests port xs s)"
  using assms
proof (induction xs arbitrary: s k)
  case Nil
  then show ?case by simp
next
  case (Cons x xs)
  have sk: "sint (single_allocation_warning_count (snd s)) = int k"
    using Cons.prems by (simp add: small_count_sint)
  show ?case
  proof (cases "is_large port x s \<and> k < 5")
    case True
    then have c: "single_allocation_warning_count (snd (exec port x s)) = of_nat (Suc k)"
      using Cons.prems sk by (simp add: exec_single_count)
    have w: "single_warnings (exec port x s) = single_warnings s + 1"
      using True sk by (simp add: exec_single_warnings)
    have "Suc k \<le> 5" using True by simp
    from Cons.IH [OF c this] w True show ?thesis by simp
  next
    case False
    then have c: "single_allocation_warning_count (snd (exec port x s)) = of_nat k"
      using Cons.prems sk by (auto simp add: exec_single_count)
    have w: "single_warnings (exec port x s) = single_warnings s"
      using False sk by (auto simp add: exec_single_warnings)
    from Cons.IH [OF c Cons.prems(2)] w False Cons.prems(2) show ?thesis
      by (auto simp add: min_def)
  qed
qed

lemma run_single_capped:
  assumes "5 \<le> sint (single_allocation_warning_count (snd s))"
  shows "single_warnings (run port xs s) = single_warnings s
         \<and> single_allocation_warning_count (snd (run port xs s))
             = single_allocation_warning_count (snd s)"
  using assms
proof (induction xs arbitrary: s)
  case Nil
  then show ?case by simp
next
  case (Cons x xs)
  have c: "single_allocation_warning_count (snd (exec port x s))
             = single_allocation_warning_count (snd s)"
    using Cons.prems by (simp add: exec_single_count)
  have w: "single_warnings (exec port x s) = single_warnings s"
    using Cons.prems by (simp add: exec_single_warnings)
  from Cons.IH [of "exec port x s"] c w Cons.prems show ?case by simp
qed

text \<open>
  C3. On a new allocator, in any process state (statistics enabled or not), a sequence
  of calls with more than 5 calls of \<open>AllocateRaw\<close> whose \<open>num_bytes\<close> is above the
  per-allocation threshold logs exactly 5 warnings about single allocations, and the
  counter ends at 5. From a state whose counter has reached 5, no sequence of calls logs
  such a warning or changes the counter.
\<close>

theorem single_allocation_warnings_capped:
  "(5 < large_requests port xs (w, EVAllocator_new) \<longrightarrow>
      single_warnings (run port xs (w, EVAllocator_new))
        = single_warnings (w, EVAllocator_new) + 5
      \<and> single_allocation_warning_count (snd (run port xs (w, EVAllocator_new))) = 5)
   \<and> (5 \<le> sint (single_allocation_warning_count (snd s)) \<longrightarrow>
        single_warnings (run port ys s) = single_warnings s
        \<and> single_allocation_warning_count (snd (run port ys s))
            = single_allocation_warning_count (snd s))"
  using run_single [of "(w, EVAllocator_new)" 0 port xs] run_single_capped [of s port ys]
  by (simp add: EVAllocator_new_def)

text \<open>
  Seven requests of 1200 bytes against a threshold of 1000, with statistics disabled:
  five warnings. Seven more from there: still five.
\<close>

theorem single_allocation_warnings_capped_witness:
  "large_requests sample_port seven_requests (process_start sample_heap_start, EVAllocator_new) = 7
   \<and> \<not> ev_allocator_collect_stats (process_start sample_heap_start)
   \<and> single_warnings (process_start sample_heap_start, EVAllocator_new) = 0
   \<and> single_warnings (run sample_port seven_requests
         (process_start sample_heap_start, EVAllocator_new)) = 5
   \<and> sint (single_allocation_warning_count (snd (run sample_port seven_requests
         (process_start sample_heap_start, EVAllocator_new)))) = 5
   \<and> single_warnings (run sample_port seven_requests (run sample_port seven_requests
         (process_start sample_heap_start, EVAllocator_new))) = 5"
proof -
  let ?s = "(process_start sample_heap_start, EVAllocator_new)"
  have a: "large_requests sample_port seven_requests ?s = 7" by code_simp
  have b: "\<not> ev_allocator_collect_stats (process_start sample_heap_start)" by code_simp
  have c: "single_warnings ?s = 0" by code_simp
  have d: "sint (5 :: cint) = 5" by simp
  show ?thesis
    using single_allocation_warnings_capped
            [of sample_port seven_requests "process_start sample_heap_start"
                "run sample_port seven_requests ?s" seven_requests]
          a b c d
    by simp
qed

subsection \<open>The warning about the cumulative usage\<close>

lemma exec_total_count:
  assumes "ev_allocator_collect_stats (fst s)"
  shows "total_allocation_warning_count (snd (exec port x s)) =
     (if crosses port x s \<and> sint (total_allocation_warning_count (snd s)) < 1
      then total_allocation_warning_count (snd s) + 1
      else total_allocation_warning_count (snd s))"
proof (cases x)
  case (OpAllocateRaw alignment num_bytes)
  then show ?thesis
    using AllocateRaw_total_count [OF assms, of port alignment num_bytes]
    by (simp add: exec_def crosses_def)
qed (simp_all add: exec_def crosses_def DeallocateRaw_counts ClearStats_def Let_def)

lemma exec_total_warnings:
  assumes "ev_allocator_collect_stats (fst s)"
  shows "total_warnings (exec port x s) =
     (if crosses port x s \<and> sint (total_allocation_warning_count (snd s)) < 1
      then total_warnings s + 1
      else total_warnings s)"
proof (cases x)
  case (OpAllocateRaw alignment num_bytes)
  then show ?thesis
    using AllocateRaw_total_warnings [OF assms, of port alignment num_bytes]
    by (simp add: exec_def crosses_def)
qed (simp_all add: exec_def crosses_def DeallocateRaw_process total_warnings_def)

lemma one_count_sint:
  fixes k :: nat
  assumes "k \<le> 1"
  shows "sint (of_nat k :: cint) = int k"
proof -
  have "k \<in> {0, 1}" using assms by auto
  then show ?thesis by auto
qed

lemma run_total:
  assumes "ev_allocator_collect_stats (fst s)"
    and "total_allocation_warning_count (snd s) = of_nat k" and "k \<le> 1"
  shows "total_allocation_warning_count (snd (run port xs s))
           = of_nat (min 1 (k + crossings port xs s))
         \<and> total_warnings (run port xs s) + k
             = total_warnings s + min 1 (k + crossings port xs s)"
  using assms
proof (induction xs arbitrary: s k)
  case Nil
  then show ?case by simp
next
  case (Cons x xs)
  have sk: "sint (total_allocation_warning_count (snd s)) = int k"
    using Cons.prems by (simp add: one_count_sint)
  have en: "ev_allocator_collect_stats (fst (exec port x s))"
    using Cons.prems(1) by (simp add: exec_flag)
  show ?case
  proof (cases "crosses port x s \<and> k < 1")
    case True
    then have c: "total_allocation_warning_count (snd (exec port x s)) = of_nat (Suc k)"
      using Cons.prems sk by (simp add: exec_total_count)
    have w: "total_warnings (exec port x s) = total_warnings s + 1"
      using True sk Cons.prems(1) by (simp add: exec_total_warnings)
    have "Suc k \<le> 1" using True by simp
    from Cons.IH [OF en c this] w True show ?thesis by simp
  next
    case False
    then have c: "total_allocation_warning_count (snd (exec port x s)) = of_nat k"
      using Cons.prems sk by (auto simp add: exec_total_count)
    have w: "total_warnings (exec port x s) = total_warnings s"
      using False sk Cons.prems(1) by (auto simp add: exec_total_warnings)
    from Cons.IH [OF en c Cons.prems(3)] w False Cons.prems(3) show ?thesis
      by (auto simp add: min_def)
  qed
qed

lemma run_total_new:
  assumes "ev_allocator_collect_stats w"
  shows "total_warnings (run port xs (w, EVAllocator_new))
           = total_warnings (w, EVAllocator_new)
             + min 1 (crossings port xs (w, EVAllocator_new))"
  using run_total [of "(w, EVAllocator_new)" 0 port xs] assms
  by (simp add: EVAllocator_new_def)

lemma crossings_append:
  "crossings port (xs @ ys) s = crossings port xs s + crossings port ys (run port xs s)"
  by (induction xs arbitrary: s) simp_all

text \<open>
  C4. With statistics enabled, on a new allocator: a sequence of calls in which no call
  of \<open>AllocateRaw\<close> leaves \<open>bytes_in_use\<close> above the cumulative threshold logs no
  cumulative warning, and a sequence in which some call does logs exactly one. The one
  warning is logged by the first such call: nothing is logged by the calls before it
  (\<open>pre\<close>), one warning is in the log right after it, and the calls after it (\<open>post\<close>)
  add none.
\<close>

theorem cumulative_warning_once:
  assumes "ev_allocator_collect_stats w"
  shows
  "(crossings port xs (w, EVAllocator_new) = 0 \<longrightarrow>
      total_warnings (run port xs (w, EVAllocator_new)) = total_warnings (w, EVAllocator_new))
   \<and> (0 < crossings port xs (w, EVAllocator_new) \<longrightarrow>
      total_warnings (run port xs (w, EVAllocator_new)) = total_warnings (w, EVAllocator_new) + 1)
   \<and> (crossings port pre (w, EVAllocator_new) = 0
       \<and> crosses port (OpAllocateRaw alignment num_bytes) (run port pre (w, EVAllocator_new)) \<longrightarrow>
      total_warnings (run port pre (w, EVAllocator_new)) = total_warnings (w, EVAllocator_new)
      \<and> total_warnings (run port (pre @ [OpAllocateRaw alignment num_bytes]) (w, EVAllocator_new))
          = total_warnings (w, EVAllocator_new) + 1
      \<and> total_warnings (run port (pre @ [OpAllocateRaw alignment num_bytes] @ post)
            (w, EVAllocator_new))
          = total_warnings (w, EVAllocator_new) + 1)"
proof -
  let ?s = "(w, EVAllocator_new)"
  let ?x = "OpAllocateRaw alignment num_bytes"
  have a: "total_warnings (run port ys ?s) = total_warnings ?s + min 1 (crossings port ys ?s)"
    for ys
    using run_total_new [OF assms, of port ys] by simp
  have none: "total_warnings (run port xs ?s) = total_warnings ?s"
    if "crossings port xs ?s = 0"
    using a [of xs] that by simp
  have some: "total_warnings (run port xs ?s) = total_warnings ?s + 1"
    if "0 < crossings port xs ?s"
    using a [of xs] that by simp
  have first: "total_warnings (run port pre ?s) = total_warnings ?s
      \<and> total_warnings (run port (pre @ [?x]) ?s) = total_warnings ?s + 1
      \<and> total_warnings (run port (pre @ [?x] @ post) ?s) = total_warnings ?s + 1"
    if p: "crossings port pre ?s = 0" and c: "crosses port ?x (run port pre ?s)"
  proof -
    have "crossings port (pre @ [?x]) ?s = 1"
      using p c by (simp add: crossings_append)
    moreover have "0 < crossings port (pre @ [?x] @ post) ?s"
      using c by (simp add: crossings_append)
    ultimately show ?thesis
      using a [of pre] a [of "pre @ [?x]"] a [of "pre @ [?x] @ post"] p
      by simp
  qed
  show ?thesis
  proof (intro conjI impI)
    assume "crossings port xs ?s = 0"
    then show "total_warnings (run port xs ?s) = total_warnings ?s" by (rule none)
  next
    assume "0 < crossings port xs ?s"
    then show "total_warnings (run port xs ?s) = total_warnings ?s + 1" by (rule some)
  next
    assume h: "crossings port pre ?s = 0 \<and> crosses port ?x (run port pre ?s)"
    show "total_warnings (run port pre ?s) = total_warnings ?s"
      using first [OF conjunct1 [OF h] conjunct2 [OF h]] by simp
  next
    assume h: "crossings port pre ?s = 0 \<and> crosses port ?x (run port pre ?s)"
    show "total_warnings (run port (pre @ [?x]) ?s) = total_warnings ?s + 1"
      using first [OF conjunct1 [OF h] conjunct2 [OF h]] by simp
  next
    assume h: "crossings port pre ?s = 0 \<and> crosses port ?x (run port pre ?s)"
    show "total_warnings (run port (pre @ [?x] @ post) ?s) = total_warnings ?s + 1"
      using first [OF conjunct1 [OF h] conjunct2 [OF h]] by simp
  qed
qed

text \<open>
  On the sample platform the cumulative threshold is 4400 (half of the 8800 bytes
  available at the first call). Three requests of 1200 bytes stay below it; the fourth
  brings \<open>bytes_in_use\<close> to 4800 and logs the warning; an allocation, a free and another
  allocation after it log no second one.
\<close>

theorem cumulative_warning_once_witness:
  "ev_allocator_collect_stats sample_process
   \<and> crossings sample_port three_requests (sample_process, EVAllocator_new) = 0
   \<and> crosses sample_port (OpAllocateRaw 64 1200)
         (run sample_port three_requests (sample_process, EVAllocator_new))
   \<and> total_warnings (sample_process, EVAllocator_new) = 0
   \<and> total_warnings (run sample_port three_requests (sample_process, EVAllocator_new)) = 0
   \<and> total_warnings (run sample_port (three_requests @ [OpAllocateRaw 64 1200])
         (sample_process, EVAllocator_new)) = 1
   \<and> total_warnings (run sample_port (three_requests @ [OpAllocateRaw 64 1200] @ later_requests)
         (sample_process, EVAllocator_new)) = 1"
proof -
  let ?s = "(sample_process, EVAllocator_new)"
  have a: "ev_allocator_collect_stats sample_process" by code_simp
  have b: "crossings sample_port three_requests ?s = 0" by code_simp
  have c: "crosses sample_port (OpAllocateRaw 64 1200) (run sample_port three_requests ?s)"
    by code_simp
  have d: "total_warnings ?s = 0" by code_simp
  show ?thesis
    using cumulative_warning_once
            [OF a, of sample_port three_requests three_requests 64 1200 later_requests]
          a b c d
    by simp
qed

subsection \<open>Bytes in use and live blocks\<close>

lemma DeallocateRaw_bytes_in_use:
  "ev_allocator_collect_stats (fst s) \<Longrightarrow>
   bytes_in_use (stats (snd (DeallocateRaw port p s))) =
     bytes_in_use (stats (snd s)) - MallocExtension_GetAllocatedSize port p (platform (fst s))"
  by (simp add: DeallocateRaw_def Let_def)

lemma reported_sizes_cong:
  assumes "\<forall>q \<in> set live. MallocExtension_GetAllocatedSize port q (platform (fst s'))
             = MallocExtension_GetAllocatedSize port q (platform (fst s))"
  shows "reported_sizes port s' live = reported_sizes port s live"
  using assms by (simp add: reported_sizes_def)

lemma sum_reported_remove1:
  assumes "p \<in> set live"
  shows "sum_list (reported_sizes port s live)
           = MallocExtension_GetAllocatedSize port p (platform (fst s))
             + sum_list (reported_sizes port s (remove1 p live))"
  using assms by (simp add: reported_sizes_def sum_list_map_remove1)

text \<open>One call keeps \<open>bytes_in_use\<close> equal to the sum of the sizes of the live blocks.\<close>

lemma exec_live_sum:
  assumes en: "ev_allocator_collect_stats (fst s)"
    and inv: "bytes_in_use (stats (snd s)) = sum_list (reported_sizes port s live)"
    and pair: "paired_step x live"
    and plat: "platform_step port x s live"
  shows "bytes_in_use (stats (snd (exec port x s)))
           = sum_list (reported_sizes port (exec port x s) (live_step port x s live))"
proof (cases x)
  case (OpAllocateRaw alignment num_bytes)
  let ?h = "platform (fst s)"
  let ?p = "fst (AlignedMalloc port num_bytes 8 ?h)"
  let ?h' = "snd (AlignedMalloc port num_bytes 8 ?h)"
  let ?s' = "snd (AllocateRaw port alignment num_bytes s)"
  have h': "platform (fst ?s') = ?h'" by (simp add: AllocateRaw_platform)
  have b: "bytes_in_use (stats (snd ?s'))
             = bytes_in_use (stats (snd s)) + MallocExtension_GetAllocatedSize port ?p ?h'"
    using en by (simp add: AllocateRaw_bytes_in_use)
  have stable: "\<forall>q \<in> set live. MallocExtension_GetAllocatedSize port q (platform (fst ?s'))
                  = MallocExtension_GetAllocatedSize port q (platform (fst s))"
    using plat OpAllocateRaw by (simp add: platform_step_def Let_def h')
  have same: "reported_sizes port ?s' live = reported_sizes port s live"
    using stable by (rule reported_sizes_cong)
  show ?thesis
  proof (cases "?p = nullptr")
    case True
    then have "MallocExtension_GetAllocatedSize port ?p ?h' = 0"
      using plat OpAllocateRaw by (simp add: platform_step_def Let_def)
    with True b inv same OpAllocateRaw show ?thesis
      by (simp add: exec_def live_step_def AllocateRaw_pointer)
  next
    case False
    have "reported_sizes port ?s' (?p # live)
            = MallocExtension_GetAllocatedSize port ?p ?h' # reported_sizes port s live"
      using same by (simp add: reported_sizes_def h')
    with False b inv OpAllocateRaw show ?thesis
      by (simp add: exec_def live_step_def AllocateRaw_pointer)
  qed
next
  case (OpDeallocateRaw p)
  let ?s' = "DeallocateRaw port p s"
  have stable: "\<forall>q \<in> set (remove1 p live).
                  MallocExtension_GetAllocatedSize port q (platform (fst ?s'))
                  = MallocExtension_GetAllocatedSize port q (platform (fst s))"
    using plat OpDeallocateRaw by (simp add: platform_step_def Let_def DeallocateRaw_process)
  have same: "reported_sizes port ?s' (remove1 p live) = reported_sizes port s (remove1 p live)"
    using stable by (rule reported_sizes_cong)
  show ?thesis
  proof (cases "p \<in> set live")
    case True
    with sum_reported_remove1 [OF True, of port s] same inv en OpDeallocateRaw show ?thesis
      by (simp add: exec_def live_step_def DeallocateRaw_bytes_in_use)
  next
    case False
    then have "p = nullptr" using pair OpDeallocateRaw by (simp add: paired_step_def)
    then have "MallocExtension_GetAllocatedSize port p (platform (fst s)) = 0"
      using plat OpDeallocateRaw by (simp add: platform_step_def Let_def)
    moreover have "remove1 p live = live" using False by (simp add: remove1_idem)
    ultimately show ?thesis
      using same inv en OpDeallocateRaw
      by (simp add: exec_def live_step_def DeallocateRaw_bytes_in_use)
  qed
next
  case OpGetStats
  with inv show ?thesis by (simp add: exec_def live_step_def)
next
  case OpClearStats
  with inv show ?thesis
    by (simp add: exec_def live_step_def ClearStats_def Let_def reported_sizes_def)
qed

lemma run_live_sum:
  assumes "ev_allocator_collect_stats (fst s)"
    and "bytes_in_use (stats (snd s)) = sum_list (reported_sizes port s live)"
    and "correctly_paired port xs s live"
    and "platform_sound port xs s live"
  shows "bytes_in_use (stats (snd (run port xs s)))
           = sum_list (reported_sizes port (run port xs s) (live_blocks port xs s live))"
  using assms
proof (induction xs arbitrary: s live)
  case Nil
  then show ?case by simp
next
  case (Cons x xs)
  have en: "ev_allocator_collect_stats (fst (exec port x s))"
    using Cons.prems(1) by (simp add: exec_flag)
  have step: "bytes_in_use (stats (snd (exec port x s)))
           = sum_list (reported_sizes port (exec port x s) (live_step port x s live))"
    using Cons.prems by (intro exec_live_sum) simp_all
  from Cons.IH [OF en step] Cons.prems(3,4) show ?case by simp
qed

lemma sum_list_words:
  fixes ws :: "64 word list"
  shows "sum_list ws = of_nat (sum_list (map unat ws))"
  by (induction ws) simp_all

lemma sint_of_nat_small:
  fixes n :: nat
  assumes "n < 2 ^ 63"
  shows "sint (of_nat n :: 64 word) = int n"
proof -
  have "(of_nat n :: 64 word) = word_of_int (int n)" by simp
  then have "sint (of_nat n :: 64 word) = signed_take_bit 63 (int n)"
    by (simp only: sint_sbintrunc') simp
  also have "\<dots> = int n"
  proof (rule signed_take_bit_int_eq_self)
    show "- (2 ^ 63) \<le> int n" by (rule order_trans [of _ 0]) simp_all
    have "int n < int (2 ^ 63)" using assms by (simp only: of_nat_less_iff)
    then show "int n < 2 ^ 63" by simp
  qed
  finally show ?thesis .
qed

text \<open>
  C1, as amended. With statistics enabled, take a new allocator and a sequence of calls
  in which every pointer passed to \<open>DeallocateRaw\<close> is a live block at that moment
  (returned by an earlier \<open>AllocateRaw\<close> of this allocator and not freed since) or null,
  on a platform that hands out null or a block that is not live, reports size 0 for null
  and keeps the reported sizes of live blocks. Then at the end \<open>bytes_in_use\<close> is the
  sum, modulo \<open>2 ^ 64\<close>, of the sizes that \<open>MallocExtension_GetAllocatedSize\<close> reports
  for the live blocks; when that sum is below \<open>2 ^ 63\<close>, the signed value of
  \<open>bytes_in_use\<close> is the sum itself. Without the bound the two differ, as the run after
  the next theorem shows.
\<close>

theorem bytes_in_use_is_live_sum:
  assumes "ev_allocator_collect_stats w"
    and "correctly_paired port xs (w, EVAllocator_new) []"
    and "platform_sound port xs (w, EVAllocator_new) []"
  shows "bytes_in_use (stats (snd (run port xs (w, EVAllocator_new))))
           = sum_list (reported_sizes port (run port xs (w, EVAllocator_new))
               (live_blocks port xs (w, EVAllocator_new) []))
         \<and> (live_bytes port (run port xs (w, EVAllocator_new))
               (live_blocks port xs (w, EVAllocator_new) []) < 2 ^ 63 \<longrightarrow>
             sint (bytes_in_use (stats (snd (run port xs (w, EVAllocator_new)))))
               = int (live_bytes port (run port xs (w, EVAllocator_new))
                   (live_blocks port xs (w, EVAllocator_new) [])))"
proof -
  let ?s = "(w, EVAllocator_new)"
  have init: "bytes_in_use (stats (snd ?s)) = sum_list (reported_sizes port ?s [])"
    by (simp add: EVAllocator_new_def AllocatorStats_new_def reported_sizes_def)
  have eq: "bytes_in_use (stats (snd (run port xs ?s)))
           = sum_list (reported_sizes port (run port xs ?s) (live_blocks port xs ?s []))"
    using assms init by (intro run_live_sum) simp_all
  then have "bytes_in_use (stats (snd (run port xs ?s)))
           = of_nat (live_bytes port (run port xs ?s) (live_blocks port xs ?s []))"
    by (simp add: live_bytes_def sum_list_words [symmetric])
  then show ?thesis
    using eq by (simp add: sint_of_nat_small)
qed

text \<open>
  A run on the sample platform: two allocations, the first one freed, a request that
  fails and whose null is freed, \<open>ClearStats\<close>, one more allocation, \<open>GetStats\<close>. Two blocks of 64 and 304
  bytes are live at the end, and \<open>bytes_in_use\<close> is 368.
\<close>

theorem bytes_in_use_is_live_sum_witness:
  "ev_allocator_collect_stats sample_process
   \<and> correctly_paired sample_port mixed_requests (sample_process, EVAllocator_new) []
   \<and> platform_sound sample_port mixed_requests (sample_process, EVAllocator_new) []
   \<and> live_blocks sample_port mixed_requests (sample_process, EVAllocator_new) [] = [5600, 5296]
   \<and> reported_sizes sample_port (run sample_port mixed_requests (sample_process, EVAllocator_new))
         [5600, 5296] = [64, 304]
   \<and> bytes_in_use (stats (snd (run sample_port mixed_requests
         (sample_process, EVAllocator_new)))) = 368
   \<and> sint (bytes_in_use (stats (snd (run sample_port mixed_requests
         (sample_process, EVAllocator_new))))) = 368"
proof -
  let ?s = "(sample_process, EVAllocator_new)"
  have a: "ev_allocator_collect_stats sample_process" by code_simp
  have b: "correctly_paired sample_port mixed_requests ?s []" by code_simp
  have c: "platform_sound sample_port mixed_requests ?s []" by code_simp
  have d: "live_blocks sample_port mixed_requests ?s [] = [5600, 5296]" by code_simp
  have e: "reported_sizes sample_port (run sample_port mixed_requests ?s) [5600, 5296]
             = [64, 304]"
    by code_simp
  have f: "live_bytes sample_port (run sample_port mixed_requests ?s) [5600, 5296] = 368"
    by (simp add: live_bytes_def e)
  show ?thesis
    using bytes_in_use_is_live_sum [OF a b c] a b c d e f
    by simp
qed

text \<open>
  C1 as it was stated fails. On the roomy platform the requests of \<open>2 ^ 63\<close> and
  \<open>2 ^ 63 - 16\<close> bytes are both served, nothing is freed, and the platform keeps its
  side: the two live blocks have \<open>2 ^ 64 - 16\<close> bytes together, and \<open>bytes_in_use\<close>
  reads \<open>- 16\<close>.
\<close>

theorem bytes_in_use_is_live_sum_counterexample:
  "ev_allocator_collect_stats roomy_process
   \<and> correctly_paired roomy_port huge_requests (roomy_process, EVAllocator_new) []
   \<and> platform_sound roomy_port huge_requests (roomy_process, EVAllocator_new) []
   \<and> live_blocks roomy_port huge_requests (roomy_process, EVAllocator_new) []
       = [0x8000000000001000, 4096]
   \<and> reported_sizes roomy_port huge_state [0x8000000000001000, 4096]
       = [0x7FFFFFFFFFFFFFF0, 0x8000000000000000]
   \<and> live_bytes roomy_port huge_state [0x8000000000001000, 4096] = 18446744073709551600
   \<and> sint (bytes_in_use (stats (snd huge_state))) = - 16
   \<and> sint (bytes_in_use (stats (snd huge_state)))
       \<noteq> int (live_bytes roomy_port huge_state [0x8000000000001000, 4096])"
proof -
  let ?s = "(roomy_process, EVAllocator_new)"
  have a: "ev_allocator_collect_stats roomy_process" by code_simp
  have b: "correctly_paired roomy_port huge_requests ?s []" by code_simp
  have c: "platform_sound roomy_port huge_requests ?s []" by code_simp
  have d: "live_blocks roomy_port huge_requests ?s [] = [0x8000000000001000, 4096]"
    by code_simp
  have e: "reported_sizes roomy_port huge_state [0x8000000000001000, 4096]
       = [0x7FFFFFFFFFFFFFF0, 0x8000000000000000]"
    by code_simp
  have f: "live_bytes roomy_port huge_state [0x8000000000001000, 4096] = 18446744073709551600"
    by (simp add: live_bytes_def e)
  have g: "bytes_in_use (stats (snd huge_state)) = 0xFFFFFFFFFFFFFFF0" by code_simp
  have h: "sint (bytes_in_use (stats (snd huge_state))) = - 16"
    by (simp add: g)
  show ?thesis
    using a b c d e f h by simp
qed

subsection \<open>The sub-allocator\<close>

lemma CreateSubAllocator_result:
  "CreateSubAllocator numa_node m =
     (length (sub_allocators m),
      m\<lparr>ev_allocators := ev_allocators m @ [EVAllocator_new],
        sub_allocators := sub_allocators m @ [\<lparr>ev_allocator = length (ev_allocators m)\<rparr>]\<rparr>)"
  by (simp add: CreateSubAllocator_def new_EVAllocator_def new_EVSubAllocator_def Let_def)

lemma call_AllocateRaw_result:
  assumes "a < length (ev_allocators m)"
  shows "call_AllocateRaw port a alignment num_bytes m =
     Some (fst (AllocateRaw port alignment num_bytes (proc m, ev_allocators m ! a)),
           m\<lparr>proc := fst (snd (AllocateRaw port alignment num_bytes (proc m, ev_allocators m ! a))),
             ev_allocators := (ev_allocators m)
               [a := snd (snd (AllocateRaw port alignment num_bytes
                                 (proc m, ev_allocators m ! a)))]\<rparr>)"
  using assms by (simp add: call_AllocateRaw_def Let_def)

lemma call_DeallocateRaw_result:
  assumes "a < length (ev_allocators m)"
  shows "call_DeallocateRaw port a p m =
     Some (m\<lparr>proc := fst (DeallocateRaw port p (proc m, ev_allocators m ! a)),
             ev_allocators := (ev_allocators m)
               [a := snd (DeallocateRaw port p (proc m, ev_allocators m ! a))]\<rparr>)"
  using assms by (simp add: call_DeallocateRaw_def Let_def)

lemma Alloc_other_allocator:
  assumes "sub < length (sub_allocators m)"
    and "ev_allocator (sub_allocators m ! sub) < length (ev_allocators m)"
    and "b \<noteq> ev_allocator (sub_allocators m ! sub)"
  shows "\<exists>p m'. Alloc port sub alignment num_bytes m = Some (p, m')
           \<and> ev_allocators m' ! b = ev_allocators m ! b
           \<and> sub_allocators m' = sub_allocators m"
  using assms by (simp add: Alloc_def call_AllocateRaw_result)

lemma Free_other_allocator:
  assumes "sub < length (sub_allocators m)"
    and "ev_allocator (sub_allocators m ! sub) < length (ev_allocators m)"
    and "b \<noteq> ev_allocator (sub_allocators m ! sub)"
  shows "\<exists>m'. Free port sub p num_bytes m = Some m'
           \<and> ev_allocators m' ! b = ev_allocators m ! b
           \<and> sub_allocators m' = sub_allocators m"
  using assms by (simp add: Free_def call_DeallocateRaw_result)

text \<open>What \<open>Alloc\<close> and \<open>Free\<close> return, in terms of the two calls on the wrapped allocator.\<close>

lemma Alloc_result:
  assumes "sub < length (sub_allocators m)"
    and "ev_allocator (sub_allocators m ! sub) < length (ev_allocators m)"
  shows "Alloc port sub alignment num_bytes m =
     Some (fst (AllocateRaw port alignment num_bytes
                  (proc m, ev_allocators m ! ev_allocator (sub_allocators m ! sub))),
           m\<lparr>proc := fst (snd (AllocateRaw port alignment num_bytes
                    (proc m, ev_allocators m ! ev_allocator (sub_allocators m ! sub)))),
             ev_allocators := (ev_allocators m)
               [ev_allocator (sub_allocators m ! sub) :=
                  snd (snd (AllocateRaw port alignment num_bytes
                    (proc m, ev_allocators m ! ev_allocator (sub_allocators m ! sub))))]\<rparr>)"
  using assms by (simp add: Alloc_def call_AllocateRaw_result)

lemma Free_result:
  assumes "sub < length (sub_allocators m)"
    and "ev_allocator (sub_allocators m ! sub) < length (ev_allocators m)"
  shows "Free port sub p hint m =
     Some (m\<lparr>proc := fst (DeallocateRaw port p
                    (proc m, ev_allocators m ! ev_allocator (sub_allocators m ! sub))),
             ev_allocators := (ev_allocators m)
               [ev_allocator (sub_allocators m ! sub) :=
                  snd (DeallocateRaw port p
                    (proc m, ev_allocators m ! ev_allocator (sub_allocators m ! sub)))]\<rparr>)"
  using assms by (simp add: Free_def call_DeallocateRaw_result)

lemma Free_effect:
  assumes "sub < length (sub_allocators m)"
    and "ev_allocator (sub_allocators m ! sub) < length (ev_allocators m)"
  shows "\<exists>m'. Free port sub p hint m = Some m'
     \<and> platform (proc m') = AlignedFree port p (platform (proc m))
     \<and> warnings (proc m') = warnings (proc m)
     \<and> bytes_in_use (stats (ev_allocators m' ! ev_allocator (sub_allocators m ! sub)))
         = (if ev_allocator_collect_stats (proc m)
            then bytes_in_use (stats (ev_allocators m ! ev_allocator (sub_allocators m ! sub)))
                 - MallocExtension_GetAllocatedSize port p (platform (proc m))
            else bytes_in_use (stats (ev_allocators m ! ev_allocator (sub_allocators m ! sub))))"
  using assms
  by (simp add: Free_result DeallocateRaw_process)
     (simp add: DeallocateRaw_def Let_def)

text \<open>
  C8. For a sub-allocator \<open>sub\<close> that wraps the allocator \<open>a\<close>: \<open>Alloc\<close> returns the
  pointer of \<open>AllocateRaw\<close> on \<open>a\<close> with the same arguments and leaves the process and
  \<open>a\<close> as that call leaves them. \<open>Free\<close> leaves the process and \<open>a\<close> as
  \<open>DeallocateRaw\<close> on \<open>a\<close> with the same pointer leaves them, whatever \<open>num_bytes\<close> is:
  the platform has had \<open>AlignedFree\<close> applied, nothing is logged, and with statistics
  enabled the \<open>bytes_in_use\<close> of \<open>a\<close> has gone down by the size reported for the pointer.
  \<open>CreateSubAllocator\<close> does the same for every \<open>numa_node\<close>. Two sub-allocators made one
  after the other wrap two different new allocators: \<open>Alloc\<close> through the first returns
  what \<open>AllocateRaw\<close> returns on a new allocator and leaves the allocator of the second
  new, and the other way round. In any program state, \<open>Alloc\<close> and \<open>Free\<close> through a
  sub-allocator leave every allocator but the wrapped one as it was.
\<close>

theorem sub_allocator_delegates:
  fixes m :: "'h program" and n1 n2 :: cint
  defines "m1 \<equiv> snd (CreateSubAllocator n1 m)"
  defines "m2 \<equiv> snd (CreateSubAllocator n2 m1)"
  defines "s1 \<equiv> fst (CreateSubAllocator n1 m)"
  defines "s2 \<equiv> fst (CreateSubAllocator n2 m1)"
  shows
  "(sub < length (sub_allocators m)
      \<and> ev_allocator (sub_allocators m ! sub) < length (ev_allocators m) \<longrightarrow>
      Alloc port sub alignment num_bytes m
        = Some (fst (AllocateRaw port alignment num_bytes
                       (proc m, ev_allocators m ! ev_allocator (sub_allocators m ! sub))),
                m\<lparr>proc := fst (snd (AllocateRaw port alignment num_bytes
                         (proc m, ev_allocators m ! ev_allocator (sub_allocators m ! sub)))),
                  ev_allocators := (ev_allocators m)
                    [ev_allocator (sub_allocators m ! sub) :=
                       snd (snd (AllocateRaw port alignment num_bytes
                         (proc m, ev_allocators m ! ev_allocator (sub_allocators m ! sub))))]\<rparr>)
      \<and> Free port sub p hint m
          = Some (m\<lparr>proc := fst (DeallocateRaw port p
                         (proc m, ev_allocators m ! ev_allocator (sub_allocators m ! sub))),
                    ev_allocators := (ev_allocators m)
                      [ev_allocator (sub_allocators m ! sub) :=
                         snd (DeallocateRaw port p
                           (proc m, ev_allocators m ! ev_allocator (sub_allocators m ! sub)))]\<rparr>)
      \<and> (\<exists>m'. Free port sub p hint m = Some m'
            \<and> platform (proc m') = AlignedFree port p (platform (proc m))
            \<and> warnings (proc m') = warnings (proc m)
            \<and> bytes_in_use (stats (ev_allocators m' ! ev_allocator (sub_allocators m ! sub)))
                = (if ev_allocator_collect_stats (proc m)
                   then bytes_in_use
                          (stats (ev_allocators m ! ev_allocator (sub_allocators m ! sub)))
                        - MallocExtension_GetAllocatedSize port p (platform (proc m))
                   else bytes_in_use
                          (stats (ev_allocators m ! ev_allocator (sub_allocators m ! sub)))))
      \<and> Alloc port sub alignment num_bytes m
        = call_AllocateRaw port (ev_allocator (sub_allocators m ! sub)) alignment num_bytes m
      \<and> map_option fst (Alloc port sub alignment num_bytes m)
          = Some (fst (AllocateRaw port alignment num_bytes
                    (proc m, ev_allocators m ! ev_allocator (sub_allocators m ! sub))))
      \<and> Free port sub p hint m
          = call_DeallocateRaw port (ev_allocator (sub_allocators m ! sub)) p m
      \<and> (b \<noteq> ev_allocator (sub_allocators m ! sub) \<longrightarrow>
           (\<exists>q m'. Alloc port sub alignment num_bytes m = Some (q, m')
               \<and> ev_allocators m' ! b = ev_allocators m ! b
               \<and> sub_allocators m' = sub_allocators m)
           \<and> (\<exists>m'. Free port sub p hint m = Some m'
               \<and> ev_allocators m' ! b = ev_allocators m ! b
               \<and> sub_allocators m' = sub_allocators m)))
   \<and> Free port sub p hint m = Free port sub p hint' m
   \<and> CreateSubAllocator n1 m = CreateSubAllocator n2 m
   \<and> s1 \<noteq> s2
   \<and> ev_allocator (sub_allocators m2 ! s1) \<noteq> ev_allocator (sub_allocators m2 ! s2)
   \<and> ev_allocators m2 ! ev_allocator (sub_allocators m2 ! s1) = EVAllocator_new
   \<and> ev_allocators m2 ! ev_allocator (sub_allocators m2 ! s2) = EVAllocator_new
   \<and> (\<exists>q m3. Alloc port s1 alignment num_bytes m2 = Some (q, m3)
         \<and> q = fst (AllocateRaw port alignment num_bytes (proc m, EVAllocator_new))
         \<and> ev_allocators m3 ! ev_allocator (sub_allocators m2 ! s1)
             = snd (snd (AllocateRaw port alignment num_bytes (proc m, EVAllocator_new)))
         \<and> ev_allocators m3 ! ev_allocator (sub_allocators m2 ! s2) = EVAllocator_new)
   \<and> (\<exists>q m3. Alloc port s2 alignment num_bytes m2 = Some (q, m3)
         \<and> q = fst (AllocateRaw port alignment num_bytes (proc m, EVAllocator_new))
         \<and> ev_allocators m3 ! ev_allocator (sub_allocators m2 ! s2)
             = snd (snd (AllocateRaw port alignment num_bytes (proc m, EVAllocator_new)))
         \<and> ev_allocators m3 ! ev_allocator (sub_allocators m2 ! s1) = EVAllocator_new)"
    (is "(?H \<longrightarrow> ?B) \<and> ?hint \<and> ?numa \<and> ?d1 \<and> ?d2 \<and> ?d3 \<and> ?d4 \<and> ?first \<and> ?second")
proof -
  have general: "?H \<longrightarrow> ?B"
  proof
    assume h: ?H
    then have v1: "sub < length (sub_allocators m)"
      and v2: "ev_allocator (sub_allocators m ! sub) < length (ev_allocators m)"
      by simp_all
    show ?B
      by (intro conjI impI;
          (rule Alloc_result [OF v1 v2] | rule Free_result [OF v1 v2]
           | rule Free_effect [OF v1 v2]
           | (rule Alloc_other_allocator [OF v1 v2], assumption)
           | (rule Free_other_allocator [OF v1 v2], assumption)
           | simp add: Alloc_def Free_def call_AllocateRaw_result v1 v2))
  qed
  have hint: ?hint
    by (simp add: Free_def)
  have numa: ?numa
    by (simp add: CreateSubAllocator_def)
  note two = m1_def m2_def s1_def s2_def CreateSubAllocator_result nth_append
  have distinct: ?d1 ?d2 ?d3 ?d4
    by (simp_all add: two)
  have first: ?first
    by (simp add: Alloc_def call_AllocateRaw_result two)
  have second: ?second
    by (simp add: Alloc_def call_AllocateRaw_result two)
  show ?thesis
    using general hint numa distinct first second by (intro conjI)
qed

text \<open>
  On the sample platform, with the sub-allocators 0 and 1 made for the nodes 3 and 7: an
  allocation of 1200 bytes through the first returns the block at 4096 and brings the
  \<open>bytes_in_use\<close> of its allocator to 1200, while that of the second stays 0. Freeing
  the block through the first, with a hint of 999 bytes, is \<open>DeallocateRaw\<close> on its
  allocator: the block leaves the platform and \<open>bytes_in_use\<close> is back at 0.
\<close>

theorem sub_allocator_delegates_witness:
  "0 < length (sub_allocators sample_two)
   \<and> ev_allocator (sub_allocators sample_two ! 0) = 0
   \<and> ev_allocator (sub_allocators sample_two ! 1) = 1
   \<and> length (ev_allocators sample_two) = 2
   \<and> map_option fst (Alloc sample_port 0 64 1200 sample_two) = Some 4096
   \<and> map_option fst (Alloc sample_port 0 64 1200 sample_two)
       = Some (fst (AllocateRaw sample_port 64 1200
                      (proc sample_two, ev_allocators sample_two ! 0)))
   \<and> map_option snd (Alloc sample_port 0 64 1200 sample_two) = Some sample_busy
   \<and> bytes_in_use (stats (ev_allocators sample_busy ! 0)) = 1200
   \<and> bytes_in_use (stats (ev_allocators sample_busy ! 1)) = 0
   \<and> blocks (platform (proc sample_busy)) = [(4096, 1200)]
   \<and> Free sample_port 0 4096 999 sample_busy
       = Some (sample_busy
           \<lparr>proc := fst (DeallocateRaw sample_port 4096
                           (proc sample_busy, ev_allocators sample_busy ! 0)),
            ev_allocators := (ev_allocators sample_busy)
              [0 := snd (DeallocateRaw sample_port 4096
                           (proc sample_busy, ev_allocators sample_busy ! 0))]\<rparr>)
   \<and> map_option (\<lambda>r. bytes_in_use (stats (ev_allocators r ! 0)))
         (Free sample_port 0 4096 999 sample_busy) = Some 0
   \<and> map_option (\<lambda>r. bytes_in_use (stats (ev_allocators r ! 1)))
         (Free sample_port 0 4096 999 sample_busy) = Some 0
   \<and> map_option (\<lambda>r. blocks (platform (proc r)))
         (Free sample_port 0 4096 999 sample_busy) = Some []
   \<and> Free sample_port 0 4096 1 sample_busy = Free sample_port 0 4096 999 sample_busy"
proof -
  have a: "0 < length (sub_allocators sample_two)" by code_simp
  have b: "ev_allocator (sub_allocators sample_two ! 0) = 0" by code_simp
  have c: "ev_allocator (sub_allocators sample_two ! 1) = 1" by code_simp
  have d: "length (ev_allocators sample_two) = 2" by code_simp
  have e: "map_option fst (Alloc sample_port 0 64 1200 sample_two) = Some 4096" by code_simp
  have f: "map_option snd (Alloc sample_port 0 64 1200 sample_two) = Some sample_busy"
    by code_simp
  have g: "bytes_in_use (stats (ev_allocators sample_busy ! 0)) = 1200" by code_simp
  have h: "bytes_in_use (stats (ev_allocators sample_busy ! 1)) = 0" by code_simp
  have i: "blocks (platform (proc sample_busy)) = [(4096, 1200)]" by code_simp
  have j: "map_option (\<lambda>r. bytes_in_use (stats (ev_allocators r ! 0)))
         (Free sample_port 0 4096 999 sample_busy) = Some 0"
    by code_simp
  have k: "map_option (\<lambda>r. bytes_in_use (stats (ev_allocators r ! 1)))
         (Free sample_port 0 4096 999 sample_busy) = Some 0"
    by code_simp
  have l: "map_option (\<lambda>r. blocks (platform (proc r)))
         (Free sample_port 0 4096 999 sample_busy) = Some []"
    by code_simp
  have a': "0 < length (sub_allocators sample_busy)" by code_simp
  have b': "ev_allocator (sub_allocators sample_busy ! 0) = 0" by code_simp
  have d': "length (ev_allocators sample_busy) = 2" by code_simp
  have v: "0 < length (sub_allocators sample_two)
      \<and> ev_allocator (sub_allocators sample_two ! 0) < length (ev_allocators sample_two)"
    using a b d by simp
  have v': "0 < length (sub_allocators sample_busy)
      \<and> ev_allocator (sub_allocators sample_busy ! 0) < length (ev_allocators sample_busy)"
    using a' b' d' by simp
  note at_two = mp [OF conjunct1 [OF sub_allocator_delegates
            [where sub = 0 and m = sample_two and port = sample_port and alignment = 64
               and num_bytes = 1200 and p = 4096 and hint = 1 and hint' = 999 and b = 1
               and ?n1.0 = 3 and ?n2.0 = 7]] v]
  note at_busy = mp [OF conjunct1 [OF sub_allocator_delegates
            [where sub = 0 and m = sample_busy and port = sample_port and alignment = 64
               and num_bytes = 1200 and p = 4096 and hint = 999 and hint' = 1 and b = 1
               and ?n1.0 = 3 and ?n2.0 = 7]] v']
  have t: "map_option fst (Alloc sample_port 0 64 1200 sample_two)
       = Some (fst (AllocateRaw sample_port 64 1200
                      (proc sample_two, ev_allocators sample_two ! 0)))"
    using conjunct1 [OF at_two] b by simp
  have u: "Free sample_port 0 4096 999 sample_busy
       = Some (sample_busy
           \<lparr>proc := fst (DeallocateRaw sample_port 4096
                           (proc sample_busy, ev_allocators sample_busy ! 0)),
            ev_allocators := (ev_allocators sample_busy)
              [0 := snd (DeallocateRaw sample_port 4096
                           (proc sample_busy, ev_allocators sample_busy ! 0))]\<rparr>)"
    using conjunct1 [OF conjunct2 [OF at_busy]] b' by simp
  have w: "Free sample_port 0 4096 1 sample_busy = Free sample_port 0 4096 999 sample_busy"
    by (rule conjunct1 [OF conjunct2 [OF sub_allocator_delegates
            [where sub = 0 and m = sample_busy and port = sample_port and alignment = 64
               and num_bytes = 1200 and p = 4096 and hint = 1 and hint' = 999 and b = 1
               and ?n1.0 = 3 and ?n2.0 = 7]]])
  show ?thesis
    using a b c d e f g h i j k l t w by (simp add: u)
qed

end
